theory Spec2Isabelle
  imports Complex_Main "HOL-Library.AList"
begin

section \<open>Stock snapshot engine: replaying one day's movement lines\<close>

text \<open>
  \<^verbatim>\<open>models/tenant_db.py\<close>, \<^verbatim>\<open>MovementType\<close>: the kinds of stock movement a
  transaction detail line can carry.
\<close>

datatype MovementType =
    VENTA | RESERVADO | RECEPCION | DEVOLUCION
  | AJUSTE | STOCK_INICIAL | TRASLADO_ENTRADA | TRASLADO_SALIDA

text \<open>
  \<^verbatim>\<open>daily_totals = defaultdict(int)\<close> of \<^verbatim>\<open>recalculate_stock_snapshots\<close>: the eight
  keys the loop ever touches, each starting at 0. Quantities are Python integers.
\<close>

record daily_totals =
  sold :: int
  returned :: int
  purchased :: int
  adjusted :: int
  transfer_in :: int
  transfer_out :: int
  newly_reserved :: int
  released_from_reservation :: int

definition empty_totals :: daily_totals where
  "empty_totals = \<lparr> sold = 0, returned = 0, purchased = 0, adjusted = 0,
     transfer_in = 0, transfer_out = 0, newly_reserved = 0,
     released_from_reservation = 0 \<rparr>"

text \<open>
  The loop variables of the replay: \<^verbatim>\<open>current_physical_stock_intra_day\<close>,
  \<^verbatim>\<open>current_reserved_stock_intra_day\<close> and \<^verbatim>\<open>daily_totals\<close>.
\<close>

record intra_day =
  physical :: int
  reserved :: int
  totals :: daily_totals

text \<open>
  One iteration of \<^verbatim>\<open>for detail in ordered_daily_transactions\<close>
  (\<^verbatim>\<open>services/snapshot_service.py\<close>, lines 304 to 341), for a line of movement type
  \<open>mt\<close> and quantity \<open>q\<close>. The branches are in the order of the source's
  \<^verbatim>\<open>if\<close>/\<^verbatim>\<open>elif\<close> chain; \<^verbatim>\<open>stock_before_this_tx\<close> is the physical stock on
  entry.
\<close>

fun apply_detail :: "intra_day \<Rightarrow> MovementType \<times> int \<Rightarrow> intra_day" where
  "apply_detail s (VENTA, q) =
     (let t = (totals s)\<lparr> sold := sold (totals s) + q \<rparr> in
      if reserved s \<ge> q
      then s\<lparr> physical := physical s - q, reserved := reserved s - q,
             totals := t\<lparr> released_from_reservation := released_from_reservation t + q \<rparr> \<rparr>
      else s\<lparr> physical := physical s - q, reserved := 0,
             totals := t\<lparr> released_from_reservation :=
                          released_from_reservation t + reserved s \<rparr> \<rparr>)"
| "apply_detail s (RESERVADO, q) =
     s\<lparr> reserved := reserved s + q,
        totals := (totals s)\<lparr> newly_reserved := newly_reserved (totals s) + q \<rparr> \<rparr>"
| "apply_detail s (DEVOLUCION, q) =
     s\<lparr> physical := physical s + q,
        totals := (totals s)\<lparr> returned := returned (totals s) + q \<rparr> \<rparr>"
| "apply_detail s (RECEPCION, q) =
     s\<lparr> physical := physical s + q,
        totals := (totals s)\<lparr> purchased := purchased (totals s) + q \<rparr> \<rparr>"
| "apply_detail s (TRASLADO_ENTRADA, q) =
     s\<lparr> physical := physical s + q,
        totals := (totals s)\<lparr> transfer_in := transfer_in (totals s) + q \<rparr> \<rparr>"
| "apply_detail s (TRASLADO_SALIDA, q) =
     s\<lparr> physical := physical s - q,
        totals := (totals s)\<lparr> transfer_out := transfer_out (totals s) + q \<rparr> \<rparr>"
| "apply_detail s (AJUSTE, q) =
     (let stock_before_this_tx = physical s; delta = q - stock_before_this_tx in
      s\<lparr> physical := q,
         totals := (totals s)\<lparr> adjusted := adjusted (totals s) + delta \<rparr> \<rparr>)"
| "apply_detail s (STOCK_INICIAL, q) =
     (let stock_before_this_tx = physical s; delta = q - stock_before_this_tx in
      s\<lparr> physical := q,
         totals := (totals s)\<lparr> adjusted := adjusted (totals s) + delta \<rparr> \<rparr>)"

text \<open>
  The whole replay of a day: the loop starts from the opening stock with empty totals and
  folds the lines in their order.
\<close>

definition replay_day :: "int \<Rightarrow> int \<Rightarrow> (MovementType \<times> int) list \<Rightarrow> intra_day" where
  "replay_day opening_physical opening_reserved details =
     foldl apply_detail
       \<lparr> physical = opening_physical, reserved = opening_reserved, totals = empty_totals \<rparr>
       details"

section \<open>Authentication: password reset\<close>

text \<open>
  \<^verbatim>\<open>models/main_db.py\<close>, \<^verbatim>\<open>User\<close>: the columns the password-reset endpoints read
  or write. The users table is the list of its rows.
\<close>

record User =
  user_id :: nat
  email :: string
  hashed_password :: string
  is_active :: bool

text \<open>Python exceptions that no handler of the endpoint catches, and HTTP errors.\<close>

datatype py_exception =
    AttributeError string
  | TypeError string
  | KeyError string
  | MultipleResultsFound

datatype http_error =
    HTTPException nat string
  | Unhandled py_exception

text \<open>
  \<^verbatim>\<open>crud/user_crud.py\<close>, \<^verbatim>\<open>get_user_by_email\<close>:
  \<^verbatim>\<open>db.query(User).filter(User.email == email).first()\<close>.
\<close>

definition get_user_by_email :: "User list \<Rightarrow> string \<Rightarrow> User option" where
  "get_user_by_email db e = find (\<lambda>u. email u = e) db"

text \<open>
  \<^verbatim>\<open>crud/user_crud.py\<close>, \<^verbatim>\<open>update_password(db, user, new_password_hashed)\<close>: stores
  the given hash on the user's row.
\<close>

definition update_password :: "User list \<Rightarrow> User \<Rightarrow> string \<Rightarrow> User list" where
  "update_password db user new_password_hashed =
     map (\<lambda>u. if user_id u = user_id user
              then u\<lparr> hashed_password := new_password_hashed \<rparr> else u) db"

text \<open>
  Every name bound at module level in \<^verbatim>\<open>crud/user_crud.py\<close>: its imports and its nine
  functions.
\<close>

definition user_crud_names :: "string list" where
  "user_crud_names =
     [''List'', ''Optional'', ''HTTPException'', ''func'', ''or_'', ''Session'',
      ''CompanyRole'', ''User'', ''UserCreate'', ''UserUpdate'', ''UserUpdateMe'',
      ''get_password_hash'', ''verify_password_reset_token'', ''Company'',
      ''get_user'', ''get_user_by_email'', ''get_users'', ''create_user'', ''delete_user'',
      ''update_user_profile'', ''get_company_by_rut'', ''update_password'', ''update_user'']"

text \<open>
  The call \<^verbatim>\<open>user_crud.<name>(db=db, user=user, new_password=...)\<close>. Python first looks
  the attribute up in the module, raising \<^verbatim>\<open>AttributeError\<close> when the module does not bind
  it. None of the names the module binds accepts the three keywords \<^verbatim>\<open>db\<close>,
  \<^verbatim>\<open>user\<close> and \<^verbatim>\<open>new_password\<close> together (\<^verbatim>\<open>update_password\<close> names its third
  parameter \<^verbatim>\<open>new_password_hashed\<close>), so a bound name raises \<^verbatim>\<open>TypeError\<close>.
\<close>

definition user_crud_call ::
  "string \<Rightarrow> User list \<Rightarrow> User \<Rightarrow> string \<Rightarrow> py_exception + User list" where
  "user_crud_call name db user new_password =
     (if name \<in> set user_crud_names
      then Inl (TypeError ''unexpected keyword argument'')
      else Inl (AttributeError name))"

text \<open>
  \<^verbatim>\<open>core/security.py\<close>, \<^verbatim>\<open>verify_password_reset_token\<close>. The JWT library is not part
  of the repository: \<open>jwt_decode\<close> stands for
  \<^verbatim>\<open>jwt.decode(token, SECRET_KEY, algorithms=[ALGORITHM], audience="password_reset")\<close> at
  the time of the request, giving the token's claims, or \<open>None\<close> where the library raises
  \<^verbatim>\<open>JWTError\<close>. Reading \<^verbatim>\<open>decoded_token["sub"]\<close> raises \<^verbatim>\<open>KeyError\<close> when the claim
  is absent, which the function does not catch.
\<close>

definition verify_password_reset_token ::
  "('tok \<Rightarrow> (string \<rightharpoonup> string) option) \<Rightarrow> 'tok \<Rightarrow> py_exception + string option" where
  "verify_password_reset_token jwt_decode tok =
     (case jwt_decode tok of
        None \<Rightarrow> Inr None
      | Some decoded_token \<Rightarrow>
          (case decoded_token ''sub'' of
             None \<Rightarrow> Inl (KeyError ''sub'')
           | Some sub \<Rightarrow> Inr (Some sub)))"

text \<open>\<^verbatim>\<open>schemas/token_schemas.py\<close>, \<^verbatim>\<open>PasswordReset\<close>.\<close>

record 'tok PasswordReset =
  token :: 'tok
  new_password :: string

text \<open>
  \<^verbatim>\<open>routers/auth_router.py\<close>, \<^verbatim>\<open>reset_password\<close> (POST /auth/password-reset). The
  result is the error raised, or the users table after the call with the response message.
  \<^verbatim>\<open>if not email\<close> also rejects the empty subject.
\<close>

definition reset_password ::
  "('tok \<Rightarrow> (string \<rightharpoonup> string) option) \<Rightarrow> User list \<Rightarrow> 'tok PasswordReset
     \<Rightarrow> http_error + (User list \<times> string)" where
  "reset_password jwt_decode db reset_data =
     (case verify_password_reset_token jwt_decode (token reset_data) of
        Inl e \<Rightarrow> Inl (Unhandled e)
      | Inr None \<Rightarrow> Inl (HTTPException 400 ''Invalid or expired token'')
      | Inr (Some em) \<Rightarrow>
          if em = [] then Inl (HTTPException 400 ''Invalid or expired token'')
          else (case get_user_by_email db em of
                  None \<Rightarrow> Inl (HTTPException 404 ''User not found'')
                | Some user \<Rightarrow>
                    if \<not> is_active user then Inl (HTTPException 400 ''Inactive user'')
                    else (case user_crud_call ''change_password'' db user
                                 (new_password reset_data) of
                            Inl e \<Rightarrow> Inl (Unhandled e)
                          | Inr db' \<Rightarrow> Inr (db', ''Password updated successfully''))))"

text \<open>
  \<^verbatim>\<open>routers/auth_router.py\<close>, \<^verbatim>\<open>request_password_reset\<close>
  (POST /auth/password-reset-request). The result is the response body and the background
  tasks queued: each a call of \<^verbatim>\<open>send_password_reset_email\<close> with the address and the
  token. \<open>create_password_reset_token\<close> stands for the function of that name in
  \<^verbatim>\<open>core/security.py\<close>, which signs with the JWT library and reads the clock.
\<close>

definition request_password_reset ::
  "(string \<Rightarrow> 'tok) \<Rightarrow> User list \<Rightarrow> string \<Rightarrow> (string \<times> string) list \<times> (string \<times> 'tok) list" where
  "request_password_reset create_password_reset_token db request_email =
     (let background_tasks =
            (case get_user_by_email db request_email of
               None \<Rightarrow> []
             | Some user \<Rightarrow> [(email user, create_password_reset_token (email user))])
      in ([(''msg'',
            ''If an account with that email exists, a password reset link has been sent.'')],
          background_tasks))"

section \<open>Metric configuration\<close>

text \<open>\<^verbatim>\<open>models/tenant_db.py\<close>, \<^verbatim>\<open>MetricName\<close>.\<close>

datatype MetricName =
    STOCK_CERO | BAJA_ROTACION | STOCK_CRITICO | SOBRE_STOCK
  | RECOMENDACION_COMPRA | DEVOLUCIONES | AJUSTE_STOCK | VENTA_SIN_STOCK

text \<open>
  The values a \<^verbatim>\<open>config_json\<close> dictionary holds: integers, as all the hardcoded defaults
  are, strings and null. A dictionary is a map from its keys.
\<close>

datatype json = JInt int | JStr string | JNull

type_synonym config = "string \<rightharpoonup> json"

text \<open>\<^verbatim>\<open>models/tenant_db.py\<close>, \<^verbatim>\<open>MetricConfiguration\<close>. The table is the list of its rows.\<close>

record MetricConfiguration =
  mc_metric_name :: MetricName
  mc_warehouse_id :: "int option"
  config_json :: config
  mc_is_active :: bool

text \<open>
  SQLAlchemy's \<^verbatim>\<open>Query.scalar()\<close>: the value of the only row, \<^verbatim>\<open>None\<close> when there is
  no row, \<^verbatim>\<open>MultipleResultsFound\<close> when there are several. (The table's unique
  constraint on metric and warehouse does not exclude several rows with a null warehouse.)
\<close>

definition scalar :: "'a list \<Rightarrow> py_exception + 'a option" where
  "scalar rows =
     (case rows of [] \<Rightarrow> Inr None | [r] \<Rightarrow> Inr (Some r) | _ \<Rightarrow> Inl MultipleResultsFound)"

text \<open>
  The query of \<^verbatim>\<open>get_effective_metric_config\<close>: the \<^verbatim>\<open>config_json\<close> of the active rows
  of a metric, for the company (\<open>None\<close>) or for one warehouse.
\<close>

definition query_config_json ::
  "MetricConfiguration list \<Rightarrow> MetricName \<Rightarrow> int option \<Rightarrow> config list" where
  "query_config_json tenant_db m w =
     map config_json
       (filter (\<lambda>r. mc_metric_name r = m \<and> mc_warehouse_id r = w \<and> mc_is_active r) tenant_db)"

text \<open>The \<^verbatim>\<open>hardcoded_defaults\<close> of \<^verbatim>\<open>get_effective_metric_config\<close>, by metric.\<close>

fun hardcoded_defaults :: "MetricName \<Rightarrow> config" where
  "hardcoded_defaults STOCK_CRITICO =
     [''days_for_avg'' \<mapsto> JInt 30, ''coverage_days_threshold'' \<mapsto> JInt 3,
      ''stock_qty_threshold'' \<mapsto> JInt 3]"
| "hardcoded_defaults SOBRE_STOCK =
     [''days_for_avg'' \<mapsto> JInt 30, ''coverage_days_threshold'' \<mapsto> JInt 30]"
| "hardcoded_defaults BAJA_ROTACION = [''days_since_last_sale'' \<mapsto> JInt 14]"
| "hardcoded_defaults RECOMENDACION_COMPRA = [''sales_days_for_recommendation'' \<mapsto> JInt 15]"
| "hardcoded_defaults _ = Map.empty"

text \<open>
  \<^verbatim>\<open>if db_conf_json: effective_config.update(db_conf_json)\<close>: the keys of the layer
  replace those of the configuration so far, the other keys stay.
\<close>

definition overlay :: "config \<Rightarrow> config option \<Rightarrow> config" where
  "overlay effective_config db_conf_json =
     (case db_conf_json of None \<Rightarrow> effective_config | Some c \<Rightarrow> effective_config ++ c)"

text \<open>\<^verbatim>\<open>services/get_config.py\<close>, \<^verbatim>\<open>get_effective_metric_config\<close>.\<close>

definition get_effective_metric_config ::
  "MetricConfiguration list \<Rightarrow> MetricName \<Rightarrow> int option \<Rightarrow> py_exception + config" where
  "get_effective_metric_config tenant_db metric_name_enum warehouse_id =
     (let effective_config = hardcoded_defaults metric_name_enum in
      case scalar (query_config_json tenant_db metric_name_enum None) of
        Inl e \<Rightarrow> Inl e
      | Inr global_db_conf_json \<Rightarrow>
          (let effective_config = overlay effective_config global_db_conf_json in
           case warehouse_id of
             None \<Rightarrow> Inr effective_config
           | Some w \<Rightarrow>
               (case scalar (query_config_json tenant_db metric_name_enum (Some w)) of
                  Inl e \<Rightarrow> Inl e
                | Inr warehouse_db_conf_json \<Rightarrow>
                    Inr (overlay effective_config warehouse_db_conf_json))))"

text \<open>
  The layer a query contributes when it has at most one row: that row's dictionary, or
  nothing.
\<close>

definition layer :: "MetricConfiguration list \<Rightarrow> MetricName \<Rightarrow> int option \<Rightarrow> config" where
  "layer tenant_db m w =
     (case query_config_json tenant_db m w of [c] \<Rightarrow> c | _ \<Rightarrow> Map.empty)"

text \<open>A configuration table used to exercise the resolver.\<close>

definition db_ex :: "MetricConfiguration list" where
  "db_ex =
     [\<lparr> mc_metric_name = STOCK_CRITICO, mc_warehouse_id = None,
        config_json = [''coverage_days_threshold'' \<mapsto> JInt 5], mc_is_active = True \<rparr>,
      \<lparr> mc_metric_name = STOCK_CRITICO, mc_warehouse_id = Some 2,
        config_json = [''days_for_avg'' \<mapsto> JInt 7], mc_is_active = True \<rparr>,
      \<lparr> mc_metric_name = STOCK_CRITICO, mc_warehouse_id = Some 3,
        config_json = [''days_for_avg'' \<mapsto> JInt 9], mc_is_active = True \<rparr>,
      \<lparr> mc_metric_name = STOCK_CRITICO, mc_warehouse_id = Some 2,
        config_json = [''stock_qty_threshold'' \<mapsto> JInt 50], mc_is_active = False \<rparr>]"

section \<open>Consecutive alert days\<close>

text \<open>
  \<^verbatim>\<open>models/tenant_db.py\<close>, \<^verbatim>\<open>MetricAlert\<close>. The table is unique on (alert date, metric,
  product, warehouse), none of them null: it is a map from that key to the row's other
  columns. The numeric value is an integer in every row the modelled code writes.
\<close>

record MetricAlert =
  physical_stock_at_alert :: "int option"
  available_stock_at_alert :: "int option"
  reserved_stock_at_alert :: "int option"
  metric_value_numeric :: "int option"

type_synonym alert_key = "int \<times> MetricName \<times> int \<times> int"
type_synonym alert_table = "alert_key \<rightharpoonup> MetricAlert"

text \<open>Python's \<^verbatim>\<open>range(n)\<close>: empty when \<open>n\<close> is not positive.\<close>

definition range_py :: "int \<Rightarrow> nat list" where
  "range_py n = [0..<nat n]"

text \<open>
  The loop \<^verbatim>\<open>for i in range(max_lookback_days + 1)\<close> of \<^verbatim>\<open>get_consecutive_alert_days\<close>:
  it counts while the day has an alert and breaks at the first day without one.
\<close>

fun count_until_gap :: "(nat \<Rightarrow> bool) \<Rightarrow> nat list \<Rightarrow> nat \<Rightarrow> nat" where
  "count_until_gap alert_exists [] consecutive_days = consecutive_days"
| "count_until_gap alert_exists (i # rest) consecutive_days =
     (if alert_exists i then count_until_gap alert_exists rest (consecutive_days + 1)
      else consecutive_days)"

text \<open>The query \<^verbatim>\<open>alert_exists\<close>: is there a row for that exact key on that day.\<close>

definition alert_exists_on :: "alert_table \<Rightarrow> int \<Rightarrow> int \<Rightarrow> MetricName \<Rightarrow> int \<Rightarrow> bool" where
  "alert_exists_on db product_id warehouse_id metric_name current_check_date =
     (db (current_check_date, metric_name, product_id, warehouse_id) \<noteq> None)"

text \<open>
  \<^verbatim>\<open>routers/metrics_router.py\<close>, \<^verbatim>\<open>get_consecutive_alert_days\<close>: the last argument is
  \<open>None\<close> when the caller passes no \<^verbatim>\<open>max_lookback_days\<close>, and the default is 30.
\<close>

definition get_consecutive_alert_days ::
  "alert_table \<Rightarrow> int \<Rightarrow> int \<Rightarrow> MetricName \<Rightarrow> int \<Rightarrow> int option \<Rightarrow> nat" where
  "get_consecutive_alert_days db product_id warehouse_id metric_name end_date max_lookback_days =
     (let cap = (case max_lookback_days of None \<Rightarrow> 30 | Some c \<Rightarrow> c) in
      count_until_gap
        (\<lambda>i. alert_exists_on db product_id warehouse_id metric_name (end_date - int i))
        (range_py (cap + 1)) 0)"

text \<open>
  \<^verbatim>\<open>utils/calculate_alerts_days.py\<close>, \<^verbatim>\<open>get_consecutive_alert_days\<close>: the same loop, with
  the default 90.
\<close>

definition get_consecutive_alert_days_utils ::
  "alert_table \<Rightarrow> int \<Rightarrow> int \<Rightarrow> MetricName \<Rightarrow> int \<Rightarrow> int option \<Rightarrow> nat" where
  "get_consecutive_alert_days_utils db product_id warehouse_id metric_name end_date max_lookback_days =
     (let cap = (case max_lookback_days of None \<Rightarrow> 90 | Some c \<Rightarrow> c) in
      count_until_gap
        (\<lambda>i. alert_exists_on db product_id warehouse_id metric_name (end_date - int i))
        (range_py (cap + 1)) 0)"

text \<open>Alerts for one product, warehouse and metric on each of the days 60 to 100.\<close>

definition alerts_run :: alert_table where
  "alerts_run = (\<lambda>(d, m, p, w).
     if 60 \<le> d \<and> d \<le> 100 \<and> m = STOCK_CERO \<and> p = 1 \<and> w = 1
     then Some \<lparr> physical_stock_at_alert = Some 0, available_stock_at_alert = Some 0,
                 reserved_stock_at_alert = Some 0, metric_value_numeric = Some 0 \<rparr>
     else None)"

text \<open>
  Alerts on the days 10, 9 and 8, none on day 7, and older ones on the days 6 and 5.
\<close>

definition alerts_gap :: alert_table where
  "alerts_gap = (\<lambda>(d, m, p, w).
     if d \<in> {10, 9, 8, 6, 5} \<and> m = STOCK_CERO \<and> p = 1 \<and> w = 1
     then Some \<lparr> physical_stock_at_alert = Some 0, available_stock_at_alert = Some 0,
                 reserved_stock_at_alert = Some 0, metric_value_numeric = Some 0 \<rparr>
     else None)"

section \<open>Stock snapshot engine: tables, metric evaluation and the recalculation loop\<close>

text \<open>
  A transaction detail joined with its transaction, as the engine's query reads it
  (\<^verbatim>\<open>TransactionDetail\<close> and \<^verbatim>\<open>Transaction\<close> of \<^verbatim>\<open>models/tenant_db.py\<close>). Dates are day
  numbers, so that the day before \<open>d\<close> is \<open>d - 1\<close>.
\<close>

record TransactionLine =
  transaction_date :: int
  transaction_time :: int
  line_warehouse_id :: int
  line_product_id :: int
  movement_type :: MovementType
  line_quantity :: int

text \<open>
  \<^verbatim>\<open>models/tenant_db.py\<close>, \<^verbatim>\<open>DailyStockSnapshot\<close>: the columns besides the key. The table
  is unique on (snapshot date, product, warehouse); it is an association list from that key,
  and the engine's upsert is \<open>AList.update\<close>.
\<close>

record DailyStockSnapshot =
  opening_physical_stock :: int
  opening_reserved_stock :: int
  quantity_sold :: int
  quantity_returned :: int
  quantity_purchased :: int
  quantity_adjusted :: int
  quantity_transfer_in :: int
  quantity_transfer_out :: int
  quantity_newly_reserved :: int
  quantity_released_from_reservation :: int
  closing_physical_stock :: int
  closing_reserved_stock :: int
  closing_available_stock :: int

type_synonym snapshot_key = "int \<times> int \<times> int"
type_synonym snapshot_table = "(snapshot_key \<times> DailyStockSnapshot) list"

text \<open>The tables of a tenant database that the engine reads or writes.\<close>

record tenant_db =
  transaction_lines :: "TransactionLine list"
  snapshots :: snapshot_table
  alerts :: alert_table
  metric_configurations :: "MetricConfiguration list"

text \<open>
  \<^verbatim>\<open>_create_or_update_metric_alert\<close>: an insert that on a conflict of the key replaces the
  other columns. A call is the key and the row written.
\<close>

definition create_or_update_metric_alert ::
  "alert_table \<Rightarrow> alert_key \<times> MetricAlert \<Rightarrow> alert_table" where
  "create_or_update_metric_alert tbl call = tbl(fst call \<mapsto> snd call)"

text \<open>
  The arguments of one call of \<^verbatim>\<open>_create_or_update_metric_alert\<close> from
  \<^verbatim>\<open>evaluate_and_log_metrics_for_snapshot\<close>: the stocks at the alert are the snapshot's
  closing stocks.
\<close>

definition alert_call ::
  "snapshot_key \<Rightarrow> DailyStockSnapshot \<Rightarrow> MetricName \<Rightarrow> int \<Rightarrow> alert_key \<times> MetricAlert" where
  "alert_call key snapshot_data metric_name metric_value_num =
     (case key of (snap_date, prod_id, wh_id) \<Rightarrow>
        ((snap_date, metric_name, prod_id, wh_id),
         \<lparr> physical_stock_at_alert = Some (closing_physical_stock snapshot_data),
           available_stock_at_alert = Some (closing_available_stock snapshot_data),
           reserved_stock_at_alert = Some (closing_reserved_stock snapshot_data),
           metric_value_numeric = Some metric_value_num \<rparr>))"

text \<open>
  Reading an integer parameter \<^verbatim>\<open>cfg[k]\<close> for date or integer arithmetic: a missing key
  raises \<^verbatim>\<open>KeyError\<close>, a string or null raises \<^verbatim>\<open>TypeError\<close> at the arithmetic.
\<close>

definition config_int :: "config \<Rightarrow> string \<Rightarrow> py_exception + int" where
  "config_int cfg k =
     (case cfg k of
        None \<Rightarrow> Inl (KeyError k)
      | Some (JInt n) \<Rightarrow> Inr n
      | Some _ \<Rightarrow> Inl (TypeError k))"

text \<open>
  \<^verbatim>\<open>func.sum(DailyStockSnapshot.quantity_sold)\<close> over the snapshots of a product and
  warehouse dated between two days, both included; \<^verbatim>\<open>or 0\<close> when there is none.
\<close>

definition sum_quantity_sold :: "snapshot_table \<Rightarrow> int \<Rightarrow> int \<Rightarrow> int \<Rightarrow> int \<Rightarrow> int" where
  "sum_quantity_sold tbl prod_id wh_id date_from date_to =
     sum_list (map (quantity_sold \<circ> snd)
       (filter (\<lambda>(k, s). case k of (d, p, w) \<Rightarrow>
                  p = prod_id \<and> w = wh_id \<and> date_from \<le> d \<and> d \<le> date_to) tbl))"

text \<open>
  \<^verbatim>\<open>func.max(DailyStockSnapshot.snapshot_date)\<close> over the snapshots of the product and
  warehouse with a sale, up to the snapshot's day.
\<close>

definition last_sale_date :: "snapshot_table \<Rightarrow> int \<Rightarrow> int \<Rightarrow> int \<Rightarrow> int option" where
  "last_sale_date tbl prod_id wh_id snap_date =
     (case map (fst \<circ> fst)
             (filter (\<lambda>(k, s). case k of (d, p, w) \<Rightarrow>
                        p = prod_id \<and> w = wh_id \<and> quantity_sold s > 0 \<and> d \<le> snap_date) tbl) of
        [] \<Rightarrow> None
      | d # ds \<Rightarrow> Some (fold max ds d))"

text \<open>
  The sections of \<^verbatim>\<open>evaluate_and_log_metrics_for_snapshot\<close>
  (\<^verbatim>\<open>services/snapshot_service.py\<close>), each giving the calls of
  \<^verbatim>\<open>_create_or_update_metric_alert\<close> it makes, in order. No section reads the alerts
  table. First the stock-zero section (lines 82 to 91).
\<close>

definition stock_cero_section :: "snapshot_key \<Rightarrow> DailyStockSnapshot \<Rightarrow> (alert_key \<times> MetricAlert) list" where
  "stock_cero_section key snapshot_data =
     (let available_stock = closing_available_stock snapshot_data in
      if available_stock \<le> 0 then [alert_call key snapshot_data STOCK_CERO available_stock] else [])"

text \<open>The low-rotation section (lines 154 to 171).\<close>

definition baja_rotacion_section ::
  "snapshot_table \<Rightarrow> snapshot_key \<Rightarrow> DailyStockSnapshot \<Rightarrow> (MetricName \<rightharpoonup> config)
     \<Rightarrow> py_exception + (alert_key \<times> MetricAlert) list" where
  "baja_rotacion_section tbl key snapshot_data configs =
     (case key of (snap_date, prod_id, wh_id) \<Rightarrow>
        (let cfg_baja_rot =
               (case configs BAJA_ROTACION of
                  None \<Rightarrow> [''days_since_last_sale'' \<mapsto> JInt 14]
                | Some c \<Rightarrow> c);
             physical_stock = closing_physical_stock snapshot_data
         in if physical_stock > 0 then
              (let days_no_sale =
                     (case last_sale_date tbl prod_id wh_id snap_date of
                        Some last_sale_date_val \<Rightarrow> snap_date - last_sale_date_val
                      | None \<Rightarrow> 999)
               in (case config_int cfg_baja_rot ''days_since_last_sale'' of
                     Inl e \<Rightarrow> Inl e
                   | Inr threshold \<Rightarrow>
                       Inr (if days_no_sale > threshold
                            then [alert_call key snapshot_data BAJA_ROTACION days_no_sale]
                            else [])))
            else Inr []))"

text \<open>
  The purchase-recommendation section (lines 173 to 205): the sales of the lookback window,
  which starts \<open>days - 1\<close> days before the snapshot's day and includes it.
\<close>

definition total_sold_lookback :: "snapshot_table \<Rightarrow> snapshot_key \<Rightarrow> int \<Rightarrow> int" where
  "total_sold_lookback tbl key days =
     (case key of (snap_date, prod_id, wh_id) \<Rightarrow>
        sum_quantity_sold tbl prod_id wh_id (snap_date - (days - 1)) snap_date)"

text \<open>
  The two \<^verbatim>\<open>if\<close> statements of the section, for company 47 and for every other company.
  \<^verbatim>\<open>available_stock\<close> is a \<^verbatim>\<open>Decimal\<close> made from an integer, so \<^verbatim>\<open>int(available_stock)\<close>
  is that integer.
\<close>

definition units_to_buy_calls ::
  "snapshot_key \<Rightarrow> DailyStockSnapshot \<Rightarrow> int \<Rightarrow> int \<Rightarrow> (alert_key \<times> MetricAlert) list" where
  "units_to_buy_calls key snapshot_data total_sold company_id =
     (let available_stock = closing_available_stock snapshot_data in
      (if available_stock > 0 \<and> total_sold > 0 \<and> available_stock < total_sold \<and> company_id = 47
       then [alert_call key snapshot_data RECOMENDACION_COMPRA (total_sold - available_stock)]
       else [])
      @
      (if available_stock < total_sold \<and> company_id \<noteq> 47
       then [alert_call key snapshot_data RECOMENDACION_COMPRA (total_sold - available_stock)]
       else []))"

text \<open>
  \<^verbatim>\<open>cfg_recompra = configs.get(MetricName.RECOMENDACION_COMPRA)\<close> has no default:
  subscripting \<^verbatim>\<open>None\<close> raises \<^verbatim>\<open>TypeError\<close>.
\<close>

definition recomendacion_compra_section ::
  "snapshot_table \<Rightarrow> snapshot_key \<Rightarrow> DailyStockSnapshot \<Rightarrow> (MetricName \<rightharpoonup> config) \<Rightarrow> int
     \<Rightarrow> py_exception + (alert_key \<times> MetricAlert) list" where
  "recomendacion_compra_section tbl key snapshot_data configs company_id =
     (case configs RECOMENDACION_COMPRA of
        None \<Rightarrow> Inl (TypeError ''cfg_recompra'')
      | Some cfg_recompra \<Rightarrow>
          (case config_int cfg_recompra ''sales_days_for_recommendation'' of
             Inl e \<Rightarrow> Inl e
           | Inr days \<Rightarrow>
               Inr (units_to_buy_calls key snapshot_data
                      (total_sold_lookback tbl key days) company_id)))"

text \<open>The returns, adjustment and sale-without-stock sections (lines 207 to 235).\<close>

definition event_sections :: "snapshot_key \<Rightarrow> DailyStockSnapshot \<Rightarrow> (alert_key \<times> MetricAlert) list" where
  "event_sections key snapshot_data =
     (if quantity_returned snapshot_data > 0
      then [alert_call key snapshot_data DEVOLUCIONES (quantity_returned snapshot_data)] else [])
     @
     (if quantity_adjusted snapshot_data \<noteq> 0
      then [alert_call key snapshot_data AJUSTE_STOCK (quantity_adjusted snapshot_data)] else [])
     @
     (if closing_physical_stock snapshot_data < 0
      then [alert_call key snapshot_data VENTA_SIN_STOCK (closing_physical_stock snapshot_data)]
      else [])"

text \<open>
  \<^verbatim>\<open>evaluate_and_log_metrics_for_snapshot\<close>. The critical-stock and overstock sections
  (lines 93 to 152) divide \<^verbatim>\<open>Decimal\<close>s under the context's rounding; they are outside this
  model. They read snapshots and write alerts of their own two metrics only.
\<close>

definition evaluate_and_log_metrics_for_snapshot ::
  "snapshot_table \<Rightarrow> snapshot_key \<Rightarrow> DailyStockSnapshot \<Rightarrow> (MetricName \<rightharpoonup> config) \<Rightarrow> int
     \<Rightarrow> py_exception + (alert_key \<times> MetricAlert) list" where
  "evaluate_and_log_metrics_for_snapshot tbl key current_snapshot_data configs company_id =
     (case baja_rotacion_section tbl key current_snapshot_data configs of
        Inl e \<Rightarrow> Inl e
      | Inr baja \<Rightarrow>
          (case recomendacion_compra_section tbl key current_snapshot_data configs
                  company_id of
             Inl e \<Rightarrow> Inl e
           | Inr recompra \<Rightarrow>
               Inr (stock_cero_section key current_snapshot_data @ baja @ recompra
                    @ event_sections key current_snapshot_data)))"

text \<open>
  The query \<^verbatim>\<open>ordered_daily_transactions\<close>: the day's lines of the product in the
  warehouse, ordered by transaction time (lines of one time keep the table's order).
\<close>

definition ordered_daily_transactions ::
  "TransactionLine list \<Rightarrow> int \<Rightarrow> int \<Rightarrow> int \<Rightarrow> (MovementType \<times> int) list" where
  "ordered_daily_transactions lines current_processing_date product_id warehouse_id =
     map (\<lambda>l. (movement_type l, line_quantity l))
       (sort_key transaction_time
          (filter (\<lambda>l. transaction_date l = current_processing_date
                        \<and> line_product_id l = product_id
                        \<and> line_warehouse_id l = warehouse_id) lines))"

text \<open>The dictionary \<^verbatim>\<open>snapshot_data\<close> (lines 344 to 362), without its timestamp.\<close>

definition snapshot_data_of :: "int \<Rightarrow> int \<Rightarrow> intra_day \<Rightarrow> DailyStockSnapshot" where
  "snapshot_data_of opening_physical_stock_for_day opening_reserved_stock_for_day s =
     \<lparr> opening_physical_stock = opening_physical_stock_for_day,
       opening_reserved_stock = opening_reserved_stock_for_day,
       quantity_sold = sold (totals s),
       quantity_returned = returned (totals s),
       quantity_purchased = purchased (totals s),
       quantity_adjusted = adjusted (totals s),
       quantity_transfer_in = transfer_in (totals s),
       quantity_transfer_out = transfer_out (totals s),
       quantity_newly_reserved = newly_reserved (totals s),
       quantity_released_from_reservation = released_from_reservation (totals s),
       closing_physical_stock = physical s,
       closing_reserved_stock = reserved s,
       closing_available_stock = physical s - reserved s \<rparr>"

text \<open>
  Steps 1 to 5 of the loop body (lines 270 to 362): the opening stock is the closing stock of
  the snapshot of the day before, or 0 without one (\<^verbatim>\<open>x or 0\<close> is \<open>x\<close> on an integer);
  then the day's lines are replayed.
\<close>

definition compute_snapshot :: "tenant_db \<Rightarrow> int \<Rightarrow> int \<Rightarrow> int \<Rightarrow> DailyStockSnapshot" where
  "compute_snapshot db current_processing_date product_id warehouse_id =
     (let previous_snapshot =
            map_of (snapshots db) (current_processing_date - 1, product_id, warehouse_id);
          opening_physical_stock_for_day =
            (case previous_snapshot of None \<Rightarrow> 0 | Some s \<Rightarrow> closing_physical_stock s);
          opening_reserved_stock_for_day =
            (case previous_snapshot of None \<Rightarrow> 0 | Some s \<Rightarrow> closing_reserved_stock s)
      in snapshot_data_of opening_physical_stock_for_day opening_reserved_stock_for_day
           (replay_day opening_physical_stock_for_day opening_reserved_stock_for_day
              (ordered_daily_transactions (transaction_lines db)
                 current_processing_date product_id warehouse_id)))"

text \<open>
  The rest of the body for one product and warehouse (lines 364 to 376): upsert the snapshot,
  then evaluate the metrics against the table so updated and write the alerts.
\<close>

definition process_pair ::
  "(MetricName \<rightharpoonup> config) \<Rightarrow> int \<Rightarrow> int \<Rightarrow> tenant_db \<Rightarrow> int \<times> int
     \<Rightarrow> py_exception + tenant_db" where
  "process_pair effective_configs company_id current_processing_date db pair =
     (case pair of (product_id, warehouse_id) \<Rightarrow>
        (let key = (current_processing_date, product_id, warehouse_id);
             snapshot_data = compute_snapshot db current_processing_date product_id warehouse_id;
             tbl = AList.update key snapshot_data (snapshots db)
         in (case evaluate_and_log_metrics_for_snapshot tbl key snapshot_data
                     effective_configs company_id of
               Inl e \<Rightarrow> Inl e
             | Inr calls \<Rightarrow>
                 Inr (db\<lparr> snapshots := tbl,
                          alerts := foldl create_or_update_metric_alert (alerts db) calls \<rparr>))))"

text \<open>A \<^verbatim>\<open>for\<close> loop whose body may raise: the first exception ends it.\<close>

fun for_each :: "('s \<Rightarrow> 'a \<Rightarrow> 'e + 's) \<Rightarrow> 's \<Rightarrow> 'a list \<Rightarrow> 'e + 's" where
  "for_each body s [] = Inr s"
| "for_each body s (x # xs) =
     (case body s x of Inl e \<Rightarrow> Inl e | Inr s' \<Rightarrow> for_each body s' xs)"

text \<open>\<^verbatim>\<open>[m for m in MetricName]\<close>, in the enumeration's order.\<close>

definition all_metric_names :: "MetricName list" where
  "all_metric_names =
     [STOCK_CERO, BAJA_ROTACION, STOCK_CRITICO, SOBRE_STOCK, RECOMENDACION_COMPRA,
      DEVOLUCIONES, AJUSTE_STOCK, VENTA_SIN_STOCK]"

text \<open>
  The dictionary comprehensions \<^verbatim>\<open>global_configs\<close> and \<^verbatim>\<open>all_configs\<close> (lines 254 to
  263): the effective configuration of every metric, for the company and for each warehouse.
\<close>

fun metric_configs ::
  "MetricConfiguration list \<Rightarrow> int option \<Rightarrow> MetricName list
     \<Rightarrow> py_exception + (MetricName \<rightharpoonup> config)" where
  "metric_configs tbl warehouse_id [] = Inr Map.empty"
| "metric_configs tbl warehouse_id (metric_name # rest) =
     (case get_effective_metric_config tbl metric_name warehouse_id of
        Inl e \<Rightarrow> Inl e
      | Inr c \<Rightarrow>
          (case metric_configs tbl warehouse_id rest of
             Inl e \<Rightarrow> Inl e
           | Inr cs \<Rightarrow> Inr (cs(metric_name \<mapsto> c))))"

fun all_configs_of ::
  "MetricConfiguration list \<Rightarrow> int list \<Rightarrow> py_exception + (int \<rightharpoonup> (MetricName \<rightharpoonup> config))" where
  "all_configs_of tbl [] = Inr Map.empty"
| "all_configs_of tbl (wh_id # rest) =
     (case metric_configs tbl (Some wh_id) all_metric_names of
        Inl e \<Rightarrow> Inl e
      | Inr c \<Rightarrow>
          (case all_configs_of tbl rest of
             Inl e \<Rightarrow> Inl e
           | Inr cs \<Rightarrow> Inr (cs(wh_id \<mapsto> c))))"

text \<open>
  The body of the \<^verbatim>\<open>while\<close> loop for one date (lines 249 to 379). On an exception the
  session is rolled back and the exception raised again: nothing of the date is kept.
\<close>

definition process_date ::
  "tenant_db \<Rightarrow> int list \<Rightarrow> int list \<Rightarrow> int \<Rightarrow> int \<Rightarrow> py_exception + tenant_db" where
  "process_date db product_ids warehouse_ids company_id current_processing_date =
     (case all_configs_of (metric_configurations db) warehouse_ids of
        Inl e \<Rightarrow> Inl e
      | Inr all_configs \<Rightarrow>
          (case metric_configs (metric_configurations db) None all_metric_names of
             Inl e \<Rightarrow> Inl e
           | Inr global_configs \<Rightarrow>
               for_each
                 (\<lambda>db product_id_to_process.
                    for_each
                      (\<lambda>db warehouse_id_to_process.
                         process_pair
                           (case all_configs warehouse_id_to_process of
                              Some c \<Rightarrow> c
                            | None \<Rightarrow> global_configs)
                           company_id current_processing_date db
                           (product_id_to_process, warehouse_id_to_process))
                      db warehouse_ids)
                 db product_ids))"

text \<open>
  The loop \<^verbatim>\<open>while current_processing_date <= today\<close>, committing after each date. It
  ends with the database, or with the exception raised and the database as last committed.
\<close>

function recalculate_loop ::
  "tenant_db \<Rightarrow> int list \<Rightarrow> int list \<Rightarrow> int \<Rightarrow> int \<Rightarrow> int
     \<Rightarrow> (py_exception \<times> tenant_db) + tenant_db" where
  "recalculate_loop db product_ids warehouse_ids company_id today current_processing_date =
     (if current_processing_date \<le> today then
        (case process_date db product_ids warehouse_ids company_id current_processing_date of
           Inl e \<Rightarrow> Inl (e, db)
         | Inr db' \<Rightarrow>
             recalculate_loop db' product_ids warehouse_ids company_id today
               (current_processing_date + 1))
      else Inr db)"
  by pat_completeness auto
termination
  by (relation "measure (\<lambda>(db, ps, ws, c, today, cur). nat (today + 1 - cur))") auto

text \<open>
  \<^verbatim>\<open>recalculate_stock_snapshots\<close>; \<open>today\<close> is the value of \<^verbatim>\<open>date.today()\<close>.
\<close>

definition recalculate_stock_snapshots ::
  "tenant_db \<Rightarrow> int list \<Rightarrow> int list \<Rightarrow> int \<Rightarrow> int \<Rightarrow> int
     \<Rightarrow> (py_exception \<times> tenant_db) + tenant_db" where
  "recalculate_stock_snapshots tenant_session product_ids warehouse_ids start_date company_id today =
     recalculate_loop tenant_session product_ids warehouse_ids company_id today start_date"

text \<open>The metric a call writes an alert of.\<close>

definition call_metric :: "alert_key \<times> MetricAlert \<Rightarrow> MetricName" where
  "call_metric call = fst (snd (fst call))"

text \<open>
  Day \<open>d\<close> of a product and warehouse is chained in a snapshot table when it has a snapshot
  whose opening stocks are the closing stocks of the snapshot of day \<open>d - 1\<close>, or 0 without
  one.
\<close>

definition chained :: "(snapshot_key \<rightharpoonup> DailyStockSnapshot) \<Rightarrow> int \<Rightarrow> int \<Rightarrow> int \<Rightarrow> bool" where
  "chained m d p w =
     (case m (d, p, w) of
        None \<Rightarrow> False
      | Some s \<Rightarrow>
          opening_physical_stock s =
            (case m (d - 1, p, w) of None \<Rightarrow> 0 | Some s0 \<Rightarrow> closing_physical_stock s0)
        \<and> opening_reserved_stock s =
            (case m (d - 1, p, w) of None \<Rightarrow> 0 | Some s0 \<Rightarrow> closing_reserved_stock s0))"

text \<open>
  An empty history with an initial stock of 10 on day 1 and a sale of 3 on day 2, the later
  line stored first.
\<close>

definition two_day_db :: tenant_db where
  "two_day_db =
     \<lparr> transaction_lines =
         [\<lparr> transaction_date = 2, transaction_time = 0, line_warehouse_id = 1,
            line_product_id = 1, movement_type = VENTA, line_quantity = 3 \<rparr>,
          \<lparr> transaction_date = 1, transaction_time = 0, line_warehouse_id = 1,
            line_product_id = 1, movement_type = STOCK_INICIAL, line_quantity = 10 \<rparr>],
       snapshots = [],
       alerts = Map.empty,
       metric_configurations = [] \<rparr>"

text \<open>
  Snapshots of days 8 to 10 of one product with sales of 2, 4 and 1, closing at 3 available
  units, and the configuration of hardcoded defaults.
\<close>

definition three_sales :: snapshot_table where
  "three_sales =
     map (\<lambda>(d, q, avail).
            ((d, 1, 1),
             \<lparr> opening_physical_stock = avail + q, opening_reserved_stock = 0,
               quantity_sold = q, quantity_returned = 0, quantity_purchased = 0,
               quantity_adjusted = 0, quantity_transfer_in = 0, quantity_transfer_out = 0,
               quantity_newly_reserved = 0, quantity_released_from_reservation = 0,
               closing_physical_stock = avail, closing_reserved_stock = 0,
               closing_available_stock = avail \<rparr>))
       [(8, 2, 8), (9, 4, 4), (10, 1, 3)]"

definition default_configs :: "MetricName \<rightharpoonup> config" where
  "default_configs = (\<lambda>m. Some (hardcoded_defaults m))"

section \<open>Metrics read endpoint: merging daily reports\<close>

text \<open>
  \<^verbatim>\<open>schemas/metric_schemas.py\<close>, \<^verbatim>\<open>OverviewDataPoint\<close> and \<^verbatim>\<open>CounterItem\<close>. Prices and
  overview values are floats in the source. The model keeps them in a type \<open>'p\<close> of which
  it uses only an addition and a zero, so that no law of exact arithmetic enters a proof.
\<close>

record 'p OverviewDataPoint =
  point_date :: int
  net :: 'p
  deviation :: 'p

record 'p CounterItem =
  name :: string
  quantity :: int
  information :: string
  backgroundColor :: string
  text1Color :: string
  text2Color :: string
  amount :: "int option"
  price :: "'p option"

text \<open>
  The \<^verbatim>\<open>report_data\<close> JSON of a generated report, as far as the overview and counters
  loops read it: \<^verbatim>\<open>overview\<close> may be absent, and may lack \<^verbatim>\<open>data\<close>.
\<close>

record 'p report_data =
  overview :: "'p OverviewDataPoint list option option"
  counters :: "'p CounterItem list"

text \<open>\<^verbatim>\<open>models/tenant_db.py\<close>, \<^verbatim>\<open>GeneratedMetricReport\<close>.\<close>

record 'p GeneratedMetricReport =
  report_date :: int
  report_warehouse_id :: "int option"
  report_json :: "'p report_data"

text \<open>
  The accumulators \<^verbatim>\<open>aggregated_overview_points\<close> and \<^verbatim>\<open>aggregated_counters\<close> of
  \<^verbatim>\<open>get_company_metrics_report\<close>. The dictionary of counters keeps its keys in the order
  of their first insertion; it is the list of its values, at most one per name.
\<close>

record 'p aggregation =
  aggregated_overview_points :: "'p OverviewDataPoint list"
  aggregated_counters :: "'p CounterItem list"

text \<open>Python's \<^verbatim>\<open>x or 0\<close> on an optional number.\<close>

definition or_zero :: "'a::zero option \<Rightarrow> 'a" where
  "or_zero x = (case x of None \<Rightarrow> 0 | Some v \<Rightarrow> v)"

text \<open>The \<^verbatim>\<open>else\<close> branch of the counters loop: the three sums, stored on the kept item.\<close>

definition add_counter :: "'p::{plus,zero} CounterItem \<Rightarrow> 'p CounterItem \<Rightarrow> 'p CounterItem" where
  "add_counter c counter_item_data =
     c\<lparr> quantity := quantity c + quantity counter_item_data,
        amount := Some (or_zero (amount c) + or_zero (amount counter_item_data)),
        price := Some (or_zero (price c) + or_zero (price counter_item_data)) \<rparr>"

text \<open>
  One iteration of \<^verbatim>\<open>for counter_item_data in report_data.get("counters", [])\<close>: a new
  name is appended as a \<^verbatim>\<open>CounterItem\<close> built from the dictionary, a known one is summed in
  place.
\<close>

fun merge_counter :: "'p::{plus,zero} CounterItem list \<Rightarrow> 'p CounterItem \<Rightarrow> 'p CounterItem list" where
  "merge_counter [] counter_item_data = [counter_item_data]"
| "merge_counter (c # cs) counter_item_data =
     (if name c = name counter_item_data then add_counter c counter_item_data # cs
      else c # merge_counter cs counter_item_data)"

text \<open>The points a report contributes: none when \<^verbatim>\<open>overview\<close> or its \<^verbatim>\<open>data\<close> is missing.\<close>

definition overview_points :: "'p report_data \<Rightarrow> 'p OverviewDataPoint list" where
  "overview_points r =
     (case overview r of
        Some (Some pts) \<Rightarrow> pts
      | _ \<Rightarrow> [])"

text \<open>
  One iteration of \<^verbatim>\<open>for report_date_obj, report_data in daily_reports_raw\<close>
  (\<^verbatim>\<open>routers/metrics_router.py\<close>, lines 176 to 197). The grid and escalation loops of the
  same iteration fill accumulators of their own and are not part of this model.
\<close>

definition aggregate_report ::
  "'p::{plus,zero} aggregation \<Rightarrow> 'p GeneratedMetricReport \<Rightarrow> 'p aggregation" where
  "aggregate_report agg row =
     \<lparr> aggregated_overview_points =
         aggregated_overview_points agg @ overview_points (report_json row),
       aggregated_counters =
         foldl merge_counter (aggregated_counters agg) (counters (report_json row)) \<rparr>"

text \<open>The whole loop, from empty accumulators (lines 171 to 208).\<close>

definition aggregate_daily_reports ::
  "'p::{plus,zero} GeneratedMetricReport list \<Rightarrow> 'p aggregation" where
  "aggregate_daily_reports daily_reports_raw =
     foldl aggregate_report
       \<lparr> aggregated_overview_points = [], aggregated_counters = [] \<rparr> daily_reports_raw"

text \<open>
  The query \<^verbatim>\<open>daily_reports_raw\<close>: the reports dated within the range, of the target
  warehouse when one is given (\<^verbatim>\<open>if target_warehouse_id\<close> is false for the id 0 too), ordered
  by report date. Rows of one date keep the table's order.
\<close>

definition daily_reports_raw ::
  "'p GeneratedMetricReport list \<Rightarrow> int \<Rightarrow> int \<Rightarrow> int option \<Rightarrow> 'p GeneratedMetricReport list" where
  "daily_reports_raw table dateInit dateEnd target_warehouse_id =
     sort_key report_date
       (filter (\<lambda>r. dateInit \<le> report_date r \<and> report_date r \<le> dateEnd \<and>
                    (case target_warehouse_id of
                       None \<Rightarrow> True
                     | Some w \<Rightarrow> if w = 0 then True else report_warehouse_id r = Some w))
          table)"

text \<open>Every counter of a given name in the reports read, in the order the loop meets them.\<close>

definition occurrences :: "string \<Rightarrow> 'p GeneratedMetricReport list \<Rightarrow> 'p CounterItem list" where
  "occurrences n raw = filter (\<lambda>c. name c = n) (concat (map (counters \<circ> report_json) raw))"

text \<open>
  The sum of a list taken from the left, as the loop accumulates it: the first value, then
  each next one added to the total so far.
\<close>

definition sum_left :: "'a::{plus,zero} list \<Rightarrow> 'a" where
  "sum_left xs = (case xs of [] \<Rightarrow> 0 | x # rest \<Rightarrow> foldl (+) x rest)"

text \<open>Two daily reports, stored most recent first, each with one \<^verbatim>\<open>stock_cero\<close> counter.\<close>

definition stock_cero_counter :: "real CounterItem" where
  "stock_cero_counter =
     \<lparr> name = ''stock_cero'', quantity = 2, information = ''Productos sin stock'',
       backgroundColor = ''#ffffff'', text1Color = ''#1749b7'', text2Color = ''#6e6e6e'',
       amount = Some 0, price = Some 50 \<rparr>"

definition two_days :: "real GeneratedMetricReport list" where
  "two_days =
     [\<lparr> report_date = 11, report_warehouse_id = Some 1,
        report_json = \<lparr> overview = Some (Some [\<lparr> point_date = 11, net = 900, deviation = 40 \<rparr>]),
                        counters = [stock_cero_counter] \<rparr> \<rparr>,
      \<lparr> report_date = 10, report_warehouse_id = Some 1,
        report_json = \<lparr> overview = Some (Some [\<lparr> point_date = 10, net = 1000, deviation = 50 \<rparr>]),
                        counters = [stock_cero_counter] \<rparr> \<rparr>]"

section \<open>Bulk transaction ingestion\<close>

text \<open>
  \<^verbatim>\<open>models/tenant_db.py\<close>: the columns of \<^verbatim>\<open>Warehouse\<close>, \<^verbatim>\<open>Product\<close>, \<^verbatim>\<open>Transaction\<close> and
  \<^verbatim>\<open>TransactionDetail\<close> that the ingestion task reads or writes. A product's cost is a
  \<^verbatim>\<open>Decimal\<close> in the source and a rational here; the rounding of the division and of the
  column is not modelled.
\<close>

record Warehouse =
  warehouse_id :: int
  warehouse_name :: string

record Product =
  product_id :: int
  product_name :: string
  code :: "string option"
  category :: "string option"
  cost :: "rat option"

record Transaction =
  transaction_id :: int
  reference_code :: string
  tx_date :: int
  tx_warehouse_id :: int

record TransactionDetail =
  detail_transaction_id :: int
  detail_product_id :: int
  quantity_moved :: int
  unit_cost :: "rat option"
  detail_movement_type :: MovementType

text \<open>
  \<^verbatim>\<open>schemas/transaction_schemas.py\<close>, \<^verbatim>\<open>TransactionItemPayload\<close>. \<^verbatim>\<open>tipo\<close> is one of the
  eight literals, which are the values of \<^verbatim>\<open>MovementType\<close>; \<^verbatim>\<open>categoria\<close> and \<^verbatim>\<open>costo\<close>
  are optional and default to \<^verbatim>\<open>None\<close>.
\<close>

record TransactionItemPayload =
  sucursal :: string
  transaccion :: string
  sku :: string
  descripcion :: string
  tipo :: MovementType
  categoria :: "string option"
  cantidad :: int
  costo :: "rat option"
  fecha_movimiento :: int

text \<open>The four tables, as lists of rows in insertion order.\<close>

record ingest_db =
  warehouses :: "Warehouse list"
  products :: "Product list"
  transactions :: "Transaction list"
  transaction_details :: "TransactionDetail list"

text \<open>
  The open session with the two caches of \<^verbatim>\<open>_process_bulk_transactions_task\<close>:
  warehouses by lowercased name, products by code.
\<close>

record ingest_session =
  session_db :: ingest_db
  warehouses_cache :: "string \<rightharpoonup> Warehouse"
  products_cache :: "string option \<rightharpoonup> Product"

text \<open>
  \<^verbatim>\<open>str.lower()\<close> on ASCII text: the letters A to Z get the bit of value 32 set, every other
  character stays.
\<close>

definition lower_char :: "char \<Rightarrow> char" where
  "lower_char c =
     (if 65 \<le> (of_char c :: nat) \<and> (of_char c :: nat) \<le> 90
      then (case c of Char b0 b1 b2 b3 b4 b5 b6 b7 \<Rightarrow> Char b0 b1 b2 b3 b4 True b6 b7)
      else c)"

definition lower :: "string \<Rightarrow> string" where
  "lower s = map lower_char s"

text \<open>The id a flushed new row gets: one more than the largest id of the table.\<close>

definition new_id :: "int list \<Rightarrow> int" where
  "new_id ids = foldr max ids 0 + 1"

text \<open>
  \<^verbatim>\<open>grouped_transactions[(item.sucursal.lower(), item.transaccion)].append(item)\<close>: the
  dictionary keeps its keys in the order of first insertion.
\<close>

fun group_item ::
  "((string \<times> string) \<times> TransactionItemPayload list) list \<Rightarrow> TransactionItemPayload
     \<Rightarrow> ((string \<times> string) \<times> TransactionItemPayload list) list" where
  "group_item [] item = [((lower (sucursal item), transaccion item), [item])]"
| "group_item ((k, items) # rest) item =
     (if k = (lower (sucursal item), transaccion item) then (k, items @ [item]) # rest
      else (k, items) # group_item rest item)"

definition grouped_transactions ::
  "TransactionItemPayload list \<Rightarrow> ((string \<times> string) \<times> TransactionItemPayload list) list" where
  "grouped_transactions payload = foldl group_item [] payload"

text \<open>
  Lines 75 to 83: the cached warehouse of that lowercased name, or a new row named as the
  group's first item spells it.
\<close>

definition get_or_create_warehouse ::
  "ingest_session \<Rightarrow> string \<Rightarrow> TransactionItemPayload list \<Rightarrow> ingest_session \<times> Warehouse" where
  "get_or_create_warehouse st sucursal_lower items =
     (case warehouses_cache st sucursal_lower of
        Some warehouse \<Rightarrow> (st, warehouse)
      | None \<Rightarrow>
          (let db = session_db st;
               warehouse = \<lparr> warehouse_id = new_id (map warehouse_id (warehouses db)),
                             warehouse_name = sucursal (hd items) \<rparr>
           in (st\<lparr> session_db := db\<lparr> warehouses := warehouses db @ [warehouse] \<rparr>,
                   warehouses_cache := (warehouses_cache st)(sucursal_lower \<mapsto> warehouse) \<rparr>,
               warehouse)))"

text \<open>
  Lines 104 to 115: the cached product of the item's SKU, or a new row. For a new product
  with a positive quantity the cost is \<^verbatim>\<open>Decimal(item.costo) / Decimal(item.cantidad)\<close>,
  and \<^verbatim>\<open>Decimal(None)\<close> raises \<^verbatim>\<open>TypeError\<close>; otherwise the cost is 0.
\<close>

definition get_or_create_product ::
  "ingest_session \<Rightarrow> TransactionItemPayload \<Rightarrow> py_exception + ingest_session \<times> Product" where
  "get_or_create_product st item =
     (case products_cache st (Some (sku item)) of
        Some product \<Rightarrow> Inr (st, product)
      | None \<Rightarrow>
          (if cantidad item > 0 \<and> costo item = None
           then Inl (TypeError ''conversion from NoneType to Decimal is not supported'')
           else
             (let db = session_db st;
                  product =
                    \<lparr> product_id = new_id (map product_id (products db)),
                      product_name = descripcion item,
                      code = Some (sku item),
                      category = categoria item,
                      cost = Some (if cantidad item > 0
                                   then the (costo item) / of_int (cantidad item) else 0) \<rparr>
              in Inr (st\<lparr> session_db := db\<lparr> products := products db @ [product] \<rparr>,
                          products_cache := (products_cache st)(Some (sku item) \<mapsto> product) \<rparr>,
                      product))))"

text \<open>One iteration of \<^verbatim>\<open>for item in items\<close> (lines 102 to 126), and the loop.\<close>

definition add_detail ::
  "Transaction \<Rightarrow> ingest_session \<Rightarrow> TransactionItemPayload \<Rightarrow> py_exception + ingest_session" where
  "add_detail new_transaction st item =
     (case get_or_create_product st item of
        Inl e \<Rightarrow> Inl e
      | Inr (st', product) \<Rightarrow>
          (let db = session_db st';
               detail = \<lparr> detail_transaction_id = transaction_id new_transaction,
                          detail_product_id = product_id product,
                          quantity_moved = cantidad item,
                          unit_cost = cost product,
                          detail_movement_type = tipo item \<rparr>
           in Inr (st'\<lparr> session_db :=
                          db\<lparr> transaction_details := transaction_details db @ [detail] \<rparr> \<rparr>)))"

fun add_details ::
  "Transaction \<Rightarrow> ingest_session \<Rightarrow> TransactionItemPayload list \<Rightarrow> py_exception + ingest_session" where
  "add_details new_transaction st [] = Inr st"
| "add_details new_transaction st (item # items) =
     (case add_detail new_transaction st item of
        Inl e \<Rightarrow> Inl e
      | Inr st' \<Rightarrow> add_details new_transaction st' items)"

text \<open>
  One iteration of the loop over the groups (lines 72 to 126): a group whose reference code
  and warehouse id are among the transactions that existed at the start is skipped, after
  its warehouse was found or created.
\<close>

definition process_group ::
  "(string \<times> int) set \<Rightarrow> ingest_session \<Rightarrow> (string \<times> string) \<times> TransactionItemPayload list
     \<Rightarrow> py_exception + ingest_session" where
  "process_group existing_transactions_cache st grp =
     (case grp of ((sucursal_lower, ref_code), items) \<Rightarrow>
        (case get_or_create_warehouse st sucursal_lower items of
           (st1, warehouse) \<Rightarrow>
             if (ref_code, warehouse_id warehouse) \<in> existing_transactions_cache then Inr st1
             else
               (let db = session_db st1;
                    first_item = hd items;
                    new_transaction =
                      \<lparr> transaction_id = new_id (map transaction_id (transactions db)),
                        reference_code = ref_code,
                        tx_date = fecha_movimiento first_item,
                        tx_warehouse_id = warehouse_id warehouse \<rparr>
                in add_details new_transaction
                     (st1\<lparr> session_db := db\<lparr> transactions := transactions db @ [new_transaction] \<rparr> \<rparr>)
                     items)))"

fun process_groups ::
  "(string \<times> int) set \<Rightarrow> ingest_session
     \<Rightarrow> ((string \<times> string) \<times> TransactionItemPayload list) list \<Rightarrow> py_exception + ingest_session" where
  "process_groups existing st [] = Inr st"
| "process_groups existing st (grp # rest) =
     (case process_group existing st grp of
        Inl e \<Rightarrow> Inl e
      | Inr st' \<Rightarrow> process_groups existing st' rest)"

text \<open>
  \<^verbatim>\<open>routers/transaction_router.py\<close>, \<^verbatim>\<open>_process_bulk_transactions_task\<close>, lines 55 to 128:
  from loading the caches to the commit. An exception rolls the session back, so nothing is
  stored; what follows the commit (snapshots and reports) writes none of the four tables.
\<close>

definition process_bulk_transactions_task ::
  "ingest_db \<Rightarrow> TransactionItemPayload list \<Rightarrow> py_exception + ingest_db" where
  "process_bulk_transactions_task db payload =
     (let st = \<lparr> session_db = db,
                 warehouses_cache =
                   foldl (\<lambda>m w. m(lower (warehouse_name w) \<mapsto> w)) Map.empty (warehouses db),
                 products_cache =
                   foldl (\<lambda>m p. m(code p \<mapsto> p)) Map.empty (products db) \<rparr>;
          existing_transactions_cache =
            set (map (\<lambda>t. (reference_code t, tx_warehouse_id t)) (transactions db))
      in case process_groups existing_transactions_cache st (grouped_transactions payload) of
           Inl e \<Rightarrow> Inl e
         | Inr st' \<Rightarrow> Inr (session_db st'))"

text \<open>
  A tenant with one warehouse, one product and one transaction, and payload items for it:
  a sale of 5 units of a given SKU without \<^verbatim>\<open>costo\<close>, a receipt with a cost at an unknown
  warehouse, and a line of the transaction already stored.
\<close>

definition shop_db :: ingest_db where
  "shop_db =
     \<lparr> warehouses = [\<lparr> warehouse_id = 1, warehouse_name = ''Centro'' \<rparr>],
       products = [\<lparr> product_id = 1, product_name = ''Taza'', code = Some ''SKU-1'',
                     category = None, cost = Some 5 \<rparr>],
       transactions = [\<lparr> transaction_id = 1, reference_code = ''B-100'', tx_date = 3,
                         tx_warehouse_id = 1 \<rparr>],
       transaction_details = [\<lparr> detail_transaction_id = 1, detail_product_id = 1,
                                quantity_moved = 2, unit_cost = Some 5,
                                detail_movement_type = VENTA \<rparr>] \<rparr>"

definition item_without_cost :: "string \<Rightarrow> TransactionItemPayload" where
  "item_without_cost s =
     \<lparr> sucursal = ''CENTRO'', transaccion = ''B-101'', sku = s, descripcion = ''Plato'',
       tipo = VENTA, categoria = None, cantidad = 5, costo = None, fecha_movimiento = 4 \<rparr>"

definition item_with_cost :: TransactionItemPayload where
  "item_with_cost =
     \<lparr> sucursal = ''Norte'', transaccion = ''R-7'', sku = ''SKU-2'', descripcion = ''Plato'',
       tipo = RECEPCION, categoria = Some ''Loza'', cantidad = 5, costo = Some 10,
       fecha_movimiento = 4 \<rparr>"

definition item_of_stored_transaction :: TransactionItemPayload where
  "item_of_stored_transaction =
     \<lparr> sucursal = ''centro'', transaccion = ''B-100'', sku = ''SKU-9'', descripcion = ''Vaso'',
       tipo = VENTA, categoria = None, cantidad = 1, costo = Some 3, fecha_movimiento = 3 \<rparr>"

section \<open>Properties of the replay\<close>

text \<open>
  C3. An \<^verbatim>\<open>ajuste\<close> or \<^verbatim>\<open>stock_inicial\<close> line takes its quantity as an absolute target:
  the running physical stock becomes exactly that quantity, the day's adjustment total grows
  by the quantity minus the physical stock just before the line, and nothing else moves.
  With opening physical stock 20 and one \<^verbatim>\<open>ajuste\<close> line of quantity 15, the adjustment
  total is -5 and the closing physical stock is 15.
\<close>

theorem ajuste_is_absolute_target:
  "(\<forall>s q mt. mt \<in> {AJUSTE, STOCK_INICIAL} \<longrightarrow>
      physical (apply_detail s (mt, q)) = q
    \<and> adjusted (totals (apply_detail s (mt, q))) = adjusted (totals s) + (q - physical s)
    \<and> reserved (apply_detail s (mt, q)) = reserved s
    \<and> totals (apply_detail s (mt, q)) =
        (totals s)\<lparr> adjusted := adjusted (totals s) + (q - physical s) \<rparr>)
   \<and> (\<forall>r. adjusted (totals (replay_day 20 r [(AJUSTE, 15)])) = - 5
          \<and> physical (replay_day 20 r [(AJUSTE, 15)]) = 15)"
  by (auto simp: replay_day_def empty_totals_def Let_def)

theorem ajuste_is_absolute_target_witness:
  "STOCK_INICIAL \<in> {AJUSTE, STOCK_INICIAL}
   \<and> physical (apply_detail \<lparr> physical = 7, reserved = 2, totals = empty_totals \<rparr>
                  (STOCK_INICIAL, 10)) = 10
   \<and> adjusted (totals (apply_detail \<lparr> physical = 7, reserved = 2, totals = empty_totals \<rparr>
                  (STOCK_INICIAL, 10))) = 3"
  using ajuste_is_absolute_target
  by (simp add: empty_totals_def)

text \<open>
  C4. A \<^verbatim>\<open>venta\<close> line of quantity \<open>q\<close> met with reserved stock \<open>r\<close> lowers the physical
  stock by \<open>q\<close> and the reserved stock by \<open>min q r\<close>, and adds that minimum to the
  released-from-reservation total; the reserved stock after a sale is never negative. With
  opening reserved stock 5 and one sale of 8, the closing reserved stock is 0 and 5 units
  were released.
\<close>

theorem venta_draws_down_reservation:
  "(\<forall>s q. physical (apply_detail s (VENTA, q)) = physical s - q
      \<and> reserved (apply_detail s (VENTA, q)) = reserved s - min q (reserved s)
      \<and> released_from_reservation (totals (apply_detail s (VENTA, q))) =
          released_from_reservation (totals s) + min q (reserved s)
      \<and> sold (totals (apply_detail s (VENTA, q))) = sold (totals s) + q
      \<and> 0 \<le> reserved (apply_detail s (VENTA, q)))
   \<and> (\<forall>p. reserved (replay_day p 5 [(VENTA, 8)]) = 0
          \<and> released_from_reservation (totals (replay_day p 5 [(VENTA, 8)])) = 5
          \<and> physical (replay_day p 5 [(VENTA, 8)]) = p - 8)"
  by (auto simp: replay_day_def empty_totals_def Let_def min_def)

section \<open>Properties of the password-reset endpoints\<close>

text \<open>
  C9. POST /auth/password-reset-request answers with the same body whether or not a user
  with the requested address exists: the body does not depend on the users table or on the
  address at all. Only the queued e-mail task differs: one is queued exactly when the
  address is a user's.
\<close>

theorem request_password_reset_same_body:
  "fst (request_password_reset mk db1 e1) = fst (request_password_reset mk db2 e2)
   \<and> fst (request_password_reset mk db1 e1) =
       [(''msg'',
         ''If an account with that email exists, a password reset link has been sent.'')]
   \<and> (snd (request_password_reset mk db1 e1) = []) = (get_user_by_email db1 e1 = None)"
  by (simp add: request_password_reset_def split: option.splits)

text \<open>
  C1 (the code departs from the claim). With a token that decodes to the address of an
  existing active user, \<^verbatim>\<open>reset_password\<close> reaches the call
  \<^verbatim>\<open>user_crud.change_password\<close>, a name that \<^verbatim>\<open>crud/user_crud.py\<close> does not define: the
  request ends in an unhandled \<^verbatim>\<open>AttributeError\<close> and no password is stored. The endpoint
  returns the success message on no input at all.
\<close>

theorem reset_password_raises_attribute_error:
  assumes "jwt_decode (token reset_data) = Some claims"
    and "claims ''sub'' = Some em" and "em \<noteq> []"
    and "get_user_by_email db em = Some user" and "is_active user"
  shows "reset_password jwt_decode db reset_data =
           Inl (Unhandled (AttributeError ''change_password''))"
  using assms
  by (simp add: reset_password_def verify_password_reset_token_def user_crud_call_def
      user_crud_names_def)

theorem reset_password_raises_attribute_error_witness:
  "reset_password (\<lambda>t. if t = ''tok-ana'' then Some [''sub'' \<mapsto> ''ana@example.com''] else None)
     [\<lparr> user_id = 1, email = ''ana@example.com'', hashed_password = ''old-hash'',
        is_active = True \<rparr>]
     \<lparr> token = ''tok-ana'', new_password = ''new-password-1'' \<rparr>
   = Inl (Unhandled (AttributeError ''change_password''))"
  by (rule reset_password_raises_attribute_error
        [where claims = "[''sub'' \<mapsto> ''ana@example.com'']" and em = "''ana@example.com''"
           and user = "\<lparr> user_id = 1, email = ''ana@example.com'',
                           hashed_password = ''old-hash'', is_active = True \<rparr>"])
     (simp_all add: get_user_by_email_def)

section \<open>Properties of the configuration resolver\<close>

lemma scalar_le1:
  "length rows \<le> 1 \<Longrightarrow> scalar rows = Inr (case rows of [] \<Rightarrow> None | r # _ \<Rightarrow> Some r)"
  by (cases rows; cases "tl rows") (auto simp: scalar_def)

lemma overlay_layer:
  "length (query_config_json db m w) \<le> 1 \<Longrightarrow>
   overlay c (case query_config_json db m w of [] \<Rightarrow> None | r # _ \<Rightarrow> Some r) = c ++ layer db m w"
  by (cases "query_config_json db m w"; cases "tl (query_config_json db m w)")
     (auto simp: overlay_def layer_def)

text \<open>
  C6. When the active company-wide row and the active row of the warehouse are each at most
  one, the resolver returns the hardcoded defaults of the metric, overlaid by the
  company-wide row's dictionary and then by the warehouse's: for every key the warehouse
  layer wins, then the company-wide one, then the default. With a default \<open>{a:1, b:2}\<close>,
  a company-wide \<open>{b:3}\<close> and a warehouse \<open>{a:4}\<close> the two overlays give \<open>{a:4, b:3}\<close>.
\<close>

theorem effective_config_layers:
  "(\<forall>db m w.
      length (query_config_json db m None) \<le> 1 \<and>
      (\<forall>x. w = Some x \<longrightarrow> length (query_config_json db m w) \<le> 1) \<longrightarrow>
      (\<exists>cfg. get_effective_metric_config db m w = Inr cfg
         \<and> cfg = hardcoded_defaults m ++ layer db m None
                   ++ (case w of None \<Rightarrow> Map.empty | Some x \<Rightarrow> layer db m w)
         \<and> (\<forall>k. cfg k =
               (case (case w of None \<Rightarrow> None | Some x \<Rightarrow> layer db m w k) of
                  Some v \<Rightarrow> Some v
                | None \<Rightarrow> (case layer db m None k of
                             Some v \<Rightarrow> Some v
                           | None \<Rightarrow> hardcoded_defaults m k)))))
   \<and> overlay (overlay [''a'' \<mapsto> JInt 1, ''b'' \<mapsto> JInt 2] (Some [''b'' \<mapsto> JInt 3]))
        (Some [''a'' \<mapsto> JInt 4])
      = [''a'' \<mapsto> JInt 4, ''b'' \<mapsto> JInt 3]"
proof (intro conjI allI impI)
  fix db m w
  assume a: "length (query_config_json db m None) \<le> 1 \<and>
      (\<forall>x. w = Some x \<longrightarrow> length (query_config_json db m w) \<le> 1)"
  show "\<exists>cfg. get_effective_metric_config db m w = Inr cfg
         \<and> cfg = hardcoded_defaults m ++ layer db m None
                   ++ (case w of None \<Rightarrow> Map.empty | Some x \<Rightarrow> layer db m w)
         \<and> (\<forall>k. cfg k =
               (case (case w of None \<Rightarrow> None | Some x \<Rightarrow> layer db m w k) of
                  Some v \<Rightarrow> Some v
                | None \<Rightarrow> (case layer db m None k of
                             Some v \<Rightarrow> Some v
                           | None \<Rightarrow> hardcoded_defaults m k)))"
  proof (cases w)
    case None
    with a show ?thesis
      by (simp add: get_effective_metric_config_def scalar_le1 overlay_layer map_add_def
          split: option.splits)
  next
    case (Some x)
    with a show ?thesis
      by (simp add: get_effective_metric_config_def scalar_le1 overlay_layer map_add_def
          split: option.splits)
  qed
next
  show "overlay (overlay [''a'' \<mapsto> JInt 1, ''b'' \<mapsto> JInt 2] (Some [''b'' \<mapsto> JInt 3]))
        (Some [''a'' \<mapsto> JInt 4])
      = [''a'' \<mapsto> JInt 4, ''b'' \<mapsto> JInt 3]"
    by (auto simp: overlay_def map_add_def fun_eq_iff)
qed

theorem effective_config_layers_witness:
  "length (query_config_json db_ex STOCK_CRITICO None) \<le> 1
   \<and> length (query_config_json db_ex STOCK_CRITICO (Some 2)) \<le> 1
   \<and> get_effective_metric_config db_ex STOCK_CRITICO (Some 2) =
       Inr [''days_for_avg'' \<mapsto> JInt 7, ''coverage_days_threshold'' \<mapsto> JInt 5,
            ''stock_qty_threshold'' \<mapsto> JInt 3]"
proof -
  have h: "length (query_config_json db_ex STOCK_CRITICO None) \<le> 1
     \<and> (\<forall>x. Some 2 = Some x \<longrightarrow> length (query_config_json db_ex STOCK_CRITICO (Some 2)) \<le> 1)"
    by (simp add: db_ex_def query_config_json_def)
  have l0: "layer db_ex STOCK_CRITICO None = [''coverage_days_threshold'' \<mapsto> JInt 5]"
    by (simp add: db_ex_def query_config_json_def layer_def)
  have l2: "layer db_ex STOCK_CRITICO (Some 2) = [''days_for_avg'' \<mapsto> JInt 7]"
    by (simp add: db_ex_def query_config_json_def layer_def)
  from effective_config_layers [THEN conjunct1, rule_format, OF h]
  have "get_effective_metric_config db_ex STOCK_CRITICO (Some 2) =
          Inr (hardcoded_defaults STOCK_CRITICO ++ layer db_ex STOCK_CRITICO None
                 ++ layer db_ex STOCK_CRITICO (Some 2))"
    by auto
  moreover have "hardcoded_defaults STOCK_CRITICO ++ [''coverage_days_threshold'' \<mapsto> JInt 5]
                   ++ [''days_for_avg'' \<mapsto> JInt 7]
               = [''days_for_avg'' \<mapsto> JInt 7, ''coverage_days_threshold'' \<mapsto> JInt 5,
                  ''stock_qty_threshold'' \<mapsto> JInt 3]"
    by (auto simp: map_add_def fun_eq_iff)
  ultimately show ?thesis using h by (simp add: l0 l2)
qed

section \<open>Properties of the consecutive-days scan\<close>

lemma count_until_gap_all:
  "(\<And>i. i \<in> set xs \<Longrightarrow> ex i) \<Longrightarrow> count_until_gap ex xs c = c + length xs"
  by (induction xs arbitrary: c) auto

lemma count_until_gap_stop:
  "(\<And>i. i \<in> set xs \<Longrightarrow> ex i) \<Longrightarrow> \<not> ex y \<Longrightarrow>
   count_until_gap ex (xs @ y # ys) c = c + length xs"
  by (induction xs arbitrary: c) auto

lemma count_until_gap_upt:
  assumes run: "\<And>i. i < n \<Longrightarrow> ex i" and gap: "n < m \<Longrightarrow> \<not> ex n" and le: "n \<le> m"
  shows "count_until_gap ex [0..<m] 0 = n"
proof (cases "n < m")
  case True
  have "[0..<m] = [0..<n] @ n # [Suc n..<m]"
    using True by (metis upt_add_eq_append upt_conv_Cons zero_le le_add_diff_inverse less_imp_le_nat)
  then show ?thesis
    using count_until_gap_stop [of "[0..<n]" ex n "[Suc n..<m]" 0] run gap True by simp
next
  case False
  with le have "n = m" by simp
  then show ?thesis
    using count_until_gap_all [of "[0..<m]" ex 0] run by simp
qed

text \<open>
  C7, as the claim states it, fails twice. With alerts on each of the 41 days ending at day
  100, the function of \<^verbatim>\<open>utils/calculate_alerts_days.py\<close> called without a cap returns 41,
  more than a 30-day cap allows: its default is 90. The function of
  \<^verbatim>\<open>routers/metrics_router.py\<close> returns 31 there, not the length 41 of the unbroken run.
\<close>

theorem consecutive_days_counterexample:
  "get_consecutive_alert_days_utils alerts_run 1 1 STOCK_CERO 100 None = 41
   \<and> get_consecutive_alert_days alerts_run 1 1 STOCK_CERO 100 None = 31
   \<and> alert_exists_on alerts_run 1 1 STOCK_CERO (100 - 40)
   \<and> \<not> alert_exists_on alerts_run 1 1 STOCK_CERO (100 - 41)"
  by (simp add: get_consecutive_alert_days_utils_def get_consecutive_alert_days_def range_py_def
       alert_exists_on_def alerts_run_def upt_rec)

text \<open>
  C7, amended. With a cap \<open>cap \<ge> 0\<close>, both functions return the length \<open>n\<close> of the unbroken
  run of alert days ending at \<open>D\<close> as long as the run ends within the days \<open>D - cap, \<dots>, D\<close>
  that the scan visits, and \<open>cap + 1\<close> when all of those days have an alert. Called without
  a cap, the function of the metrics router scans with the cap 30 and the one of
  \<^verbatim>\<open>utils/calculate_alerts_days.py\<close> with the cap 90.
\<close>

theorem consecutive_days_capped_run:
  assumes "0 \<le> cap" and "n \<le> nat cap + 1"
    and "\<forall>i < n. alert_exists_on db p w m (D - int i)"
    and "n \<le> nat cap \<longrightarrow> \<not> alert_exists_on db p w m (D - int n)"
  shows "get_consecutive_alert_days db p w m D (Some cap) = n
       \<and> get_consecutive_alert_days_utils db p w m D (Some cap) = n
       \<and> (cap = 30 \<longrightarrow> get_consecutive_alert_days db p w m D None = n)
       \<and> (cap = 90 \<longrightarrow> get_consecutive_alert_days_utils db p w m D None = n)"
proof -
  have "count_until_gap (\<lambda>i. alert_exists_on db p w m (D - int i)) [0..<nat (cap + 1)] 0 = n"
    using assms by (intro count_until_gap_upt) (auto simp: nat_add_distrib)
  then show ?thesis
    by (auto simp: get_consecutive_alert_days_def get_consecutive_alert_days_utils_def range_py_def)
qed

theorem consecutive_days_capped_run_witness:
  "get_consecutive_alert_days alerts_gap 1 1 STOCK_CERO 10 None = 3
   \<and> get_consecutive_alert_days_utils alerts_gap 1 1 STOCK_CERO 10 (Some 30) = 3
   \<and> alert_exists_on alerts_gap 1 1 STOCK_CERO 6
   \<and> \<not> alert_exists_on alerts_gap 1 1 STOCK_CERO 7"
  using consecutive_days_capped_run [of 30 3 alerts_gap 1 1 STOCK_CERO 10]
  by (simp add: alert_exists_on_def alerts_gap_def less_Suc_eq numeral_3_eq_3)

section \<open>Properties of the report aggregation\<close>

lemma agg_points:
  "aggregated_overview_points (foldl aggregate_report agg raw) =
     aggregated_overview_points agg @ concat (map (overview_points \<circ> report_json) raw)"
  by (induction raw arbitrary: agg) (auto simp: aggregate_report_def)

lemma agg_counters:
  "aggregated_counters (foldl aggregate_report agg raw) =
     foldl merge_counter (aggregated_counters agg) (concat (map (counters \<circ> report_json) raw))"
  by (induction raw arbitrary: agg) (auto simp: aggregate_report_def)

lemma name_add_counter [simp]: "name (add_counter c d) = name c"
  by (simp add: add_counter_def)

lemma names_merge_counter:
  "map name (merge_counter acc d) =
     (if name d \<in> set (map name acc) then map name acc else map name acc @ [name d])"
  by (induction acc) auto

lemma distinct_merge_counter:
  "distinct (map name acc) \<Longrightarrow> distinct (map name (merge_counter acc d))"
  by (simp add: names_merge_counter)

lemma find_merge_counter:
  "find (\<lambda>c. name c = n) (merge_counter acc d) =
     (if name d = n
      then Some (case find (\<lambda>c. name c = n) acc of None \<Rightarrow> d | Some c \<Rightarrow> add_counter c d)
      else find (\<lambda>c. name c = n) acc)"
  by (induction acc) auto

lemma distinct_foldl_merge:
  "distinct (map name acc) \<Longrightarrow> distinct (map name (foldl merge_counter acc ds))"
  by (induction ds arbitrary: acc) (auto simp: distinct_merge_counter)

lemma set_names_merge:
  "name ` set (merge_counter acc d) = insert (name d) (name ` set acc)"
  by (induction acc) auto

lemma set_names_foldl_merge:
  "name ` set (foldl merge_counter acc ds) = name ` set acc \<union> name ` set ds"
  by (induction ds arbitrary: acc) (simp_all add: set_names_merge)

lemma find_foldl_merge_other:
  "find (\<lambda>c. name c = n) (foldl merge_counter acc ds) =
     (case find (\<lambda>c. name c = n) acc of
        None \<Rightarrow> (case filter (\<lambda>c. name c = n) ds of
                   [] \<Rightarrow> None
                 | d # occ \<Rightarrow> Some (foldl add_counter d occ))
      | Some c \<Rightarrow> Some (foldl add_counter c (filter (\<lambda>c. name c = n) ds)))"
proof (induction ds arbitrary: acc)
  case Nil
  then show ?case by (simp split: option.splits)
next
  case (Cons d ds)
  show ?case
    by (simp add: Cons.IH find_merge_counter split: option.splits list.splits)
qed

lemma foldl_add_quantity:
  "quantity (foldl add_counter c ds) = quantity c + sum_list (map quantity ds)"
  by (induction ds arbitrary: c) (auto simp: add_counter_def)

lemma foldl_add_name: "name (foldl add_counter c ds) = name c"
  by (induction ds arbitrary: c) auto

lemma foldl_add_amount:
  "or_zero (amount (foldl add_counter c ds)) =
     or_zero (amount c) + sum_list (map (or_zero \<circ> amount) ds)"
  by (induction ds arbitrary: c) (auto simp: add_counter_def or_zero_def)

lemma foldl_add_price:
  "or_zero (price (foldl add_counter c ds)) =
     foldl (+) (or_zero (price c)) (map (or_zero \<circ> price) ds)"
  by (induction ds arbitrary: c) (auto simp: add_counter_def or_zero_def)

lemma foldl_add_rest:
  "information (foldl add_counter c ds) = information c"
  by (induction ds arbitrary: c) (auto simp: add_counter_def)

lemma find_distinct_name:
  "distinct (map name xs) \<Longrightarrow> c \<in> set xs \<Longrightarrow> find (\<lambda>x. name x = name c) xs = Some c"
  by (induction xs) (auto simp: image_iff)

lemma merged_counter_sums:
  assumes "c \<in> set (foldl merge_counter [] ds)"
  shows "filter (\<lambda>d. name d = name c) ds \<noteq> []
       \<and> quantity c = sum_list (map quantity (filter (\<lambda>d. name d = name c) ds))
       \<and> or_zero (amount c) = sum_list (map (or_zero \<circ> amount) (filter (\<lambda>d. name d = name c) ds))
       \<and> or_zero (price c) = sum_left (map (or_zero \<circ> price) (filter (\<lambda>d. name d = name c) ds))
       \<and> information c = information (hd (filter (\<lambda>d. name d = name c) ds))"
proof -
  let ?res = "foldl merge_counter [] ds"
  let ?occ = "filter (\<lambda>d. name d = name c) ds"
  have "distinct (map name ?res)"
    by (rule distinct_foldl_merge) simp
  then have "find (\<lambda>x. name x = name c) ?res = Some c"
    using assms by (rule find_distinct_name)
  then obtain d occ where occ: "?occ = d # occ" and c: "c = foldl add_counter d occ"
    by (auto simp: find_foldl_merge_other split: list.splits)
  show ?thesis
    unfolding occ unfolding c
    by (simp add: foldl_add_quantity foldl_add_amount foldl_add_price foldl_add_rest
        sum_left_def)
qed

text \<open>
  C8. Over the daily reports the endpoint reads for a date range, which come in report-date
  order: the overview points are the concatenation of every report's points in that order;
  the merged counters carry each counter name of the reports exactly once; and each merged
  counter's quantity, amount and price are the sums of the quantities, amounts and prices of
  all the counters of its name (a missing amount or price counting as zero, the prices added
  from the left in the order read).
\<close>

theorem merged_report_sums:
  fixes table :: "'p::{plus,zero} GeneratedMetricReport list"
  shows
  "sorted (map report_date (daily_reports_raw table dateInit dateEnd wh))
   \<and> aggregated_overview_points (aggregate_daily_reports (daily_reports_raw table dateInit dateEnd wh))
       = concat (map (overview_points \<circ> report_json) (daily_reports_raw table dateInit dateEnd wh))
   \<and> distinct (map name
        (aggregated_counters (aggregate_daily_reports (daily_reports_raw table dateInit dateEnd wh))))
   \<and> name ` set (aggregated_counters
                    (aggregate_daily_reports (daily_reports_raw table dateInit dateEnd wh)))
       = name ` (\<Union>r \<in> set (daily_reports_raw table dateInit dateEnd wh). set (counters (report_json r)))
   \<and> (\<forall>c \<in> set (aggregated_counters
                     (aggregate_daily_reports (daily_reports_raw table dateInit dateEnd wh))).
         occurrences (name c) (daily_reports_raw table dateInit dateEnd wh) \<noteq> []
       \<and> quantity c =
           sum_list (map quantity (occurrences (name c) (daily_reports_raw table dateInit dateEnd wh)))
       \<and> or_zero (amount c) =
           sum_list (map (or_zero \<circ> amount)
                      (occurrences (name c) (daily_reports_raw table dateInit dateEnd wh)))
       \<and> or_zero (price c) =
           sum_left (map (or_zero \<circ> price)
                      (occurrences (name c) (daily_reports_raw table dateInit dateEnd wh))))"
proof -
  let ?raw = "daily_reports_raw table dateInit dateEnd wh"
  have s: "sorted (map report_date ?raw)"
    by (simp add: daily_reports_raw_def)
  have p: "aggregated_overview_points (aggregate_daily_reports ?raw)
             = concat (map (overview_points \<circ> report_json) ?raw)"
    by (simp add: aggregate_daily_reports_def agg_points)
  have cs: "aggregated_counters (aggregate_daily_reports ?raw)
             = foldl merge_counter [] (concat (map (counters \<circ> report_json) ?raw))"
    by (simp add: aggregate_daily_reports_def agg_counters)
  have d: "distinct (map name (aggregated_counters (aggregate_daily_reports ?raw)))"
    unfolding cs by (rule distinct_foldl_merge) simp
  have n: "name ` set (aggregated_counters (aggregate_daily_reports ?raw))
       = name ` (\<Union>r \<in> set ?raw. set (counters (report_json r)))"
    unfolding cs by (simp add: set_names_foldl_merge)
  have m: "\<forall>c \<in> set (aggregated_counters (aggregate_daily_reports ?raw)).
         occurrences (name c) ?raw \<noteq> []
       \<and> quantity c = sum_list (map quantity (occurrences (name c) ?raw))
       \<and> or_zero (amount c) = sum_list (map (or_zero \<circ> amount) (occurrences (name c) ?raw))
       \<and> or_zero (price c) = sum_left (map (or_zero \<circ> price) (occurrences (name c) ?raw))"
    unfolding cs occurrences_def using merged_counter_sums by blast
  from s p d n m show ?thesis by blast
qed

text \<open>
  The example of the claim: two daily \<^verbatim>\<open>stock_cero\<close> counters of quantity 2, amount 0 and
  price 50.0 merge to quantity 4 and price 100.0, and the overview points of both days
  follow one another in date order.
\<close>

theorem merged_report_sums_witness:
  "aggregated_counters (aggregate_daily_reports (daily_reports_raw two_days 10 11 None))
     = [stock_cero_counter\<lparr> quantity := 4, amount := Some 0, price := Some 100 \<rparr>]
   \<and> aggregated_overview_points (aggregate_daily_reports (daily_reports_raw two_days 10 11 None))
     = [\<lparr> point_date = 10, net = 1000, deviation = 50 \<rparr>,
        \<lparr> point_date = 11, net = 900, deviation = 40 \<rparr>]
   \<and> occurrences ''stock_cero'' (daily_reports_raw two_days 10 11 None)
     = [stock_cero_counter, stock_cero_counter]"
  using merged_report_sums [of two_days 10 11 None]
  by (simp add: two_days_def daily_reports_raw_def aggregate_daily_reports_def
      aggregate_report_def overview_points_def add_counter_def or_zero_def
      stock_cero_counter_def occurrences_def)

section \<open>Properties of the metric evaluation\<close>

lemma call_metric_alert_call [simp]: "call_metric (alert_call key snap m v) = m"
  by (cases key) (simp add: call_metric_def alert_call_def)

lemma filter_stock_cero:
  "filter (\<lambda>c. call_metric c = RECOMENDACION_COMPRA) (stock_cero_section key snap) = []"
  by (simp add: stock_cero_section_def Let_def)

lemma filter_event:
  "filter (\<lambda>c. call_metric c = RECOMENDACION_COMPRA) (event_sections key snap) = []"
  by (simp add: event_sections_def)

lemma filter_baja:
  "baja_rotacion_section tbl key snap configs = Inr baja \<Longrightarrow>
   filter (\<lambda>c. call_metric c = RECOMENDACION_COMPRA) baja = []"
  by (cases key) (auto simp: baja_rotacion_section_def Let_def split: if_splits sum.splits)

lemma filter_units_to_buy:
  "filter (\<lambda>c. call_metric c = RECOMENDACION_COMPRA) (units_to_buy_calls key snap S company_id)
     = units_to_buy_calls key snap S company_id"
  by (simp add: units_to_buy_calls_def Let_def)

text \<open>
  C5. Let \<open>S\<close> be the sum of \<^verbatim>\<open>quantity_sold\<close> over the lookback window of the configured
  number of days, the snapshot's day included, and \<open>available\<close> the snapshot's closing
  available stock. Whenever the evaluation of a snapshot completes, it writes a
  \<^verbatim>\<open>recomendacion_compra\<close> alert exactly when \<open>available < S\<close>, for a company other than 47,
  and exactly when \<open>available > 0\<close>, \<open>S > 0\<close> and \<open>available < S\<close>, for company 47; it writes it
  once, under the snapshot's key, with the numeric value \<open>S - available\<close>.
\<close>

theorem recomendacion_compra_rule:
  assumes "evaluate_and_log_metrics_for_snapshot tbl key snap configs company_id = Inr calls"
    and "configs RECOMENDACION_COMPRA = Some cfg"
    and "cfg ''sales_days_for_recommendation'' = Some (JInt days)"
  shows "filter (\<lambda>c. call_metric c = RECOMENDACION_COMPRA) calls =
           (if (if company_id = 47
                then closing_available_stock snap > 0 \<and> total_sold_lookback tbl key days > 0
                     \<and> closing_available_stock snap < total_sold_lookback tbl key days
                else closing_available_stock snap < total_sold_lookback tbl key days)
            then [alert_call key snap RECOMENDACION_COMPRA
                    (total_sold_lookback tbl key days - closing_available_stock snap)]
            else [])"
proof -
  from assms(1) obtain baja recompra where
    b: "baja_rotacion_section tbl key snap configs = Inr baja" and
    r: "recomendacion_compra_section tbl key snap configs company_id = Inr recompra" and
    c: "calls = stock_cero_section key snap @ baja @ recompra @ event_sections key snap"
    by (auto simp: evaluate_and_log_metrics_for_snapshot_def split: sum.splits)
  from r assms(2,3) have
    "recompra = units_to_buy_calls key snap (total_sold_lookback tbl key days) company_id"
    by (simp add: recomendacion_compra_section_def config_int_def)
  then have "filter (\<lambda>c. call_metric c = RECOMENDACION_COMPRA) calls =
      units_to_buy_calls key snap (total_sold_lookback tbl key days) company_id"
    by (simp add: c filter_stock_cero filter_event filter_baja [OF b] filter_units_to_buy)
  then show ?thesis
    by (simp add: units_to_buy_calls_def Let_def)
qed

lemma three_sales_calls:
  "evaluate_and_log_metrics_for_snapshot three_sales (10, 1, 1)
     (the (map_of three_sales (10, 1, 1))) default_configs 5
   = Inr [alert_call (10, 1, 1) (the (map_of three_sales (10, 1, 1))) RECOMENDACION_COMPRA 4]"
  by (simp add: three_sales_def default_configs_def evaluate_and_log_metrics_for_snapshot_def
      baja_rotacion_section_def recomendacion_compra_section_def config_int_def
      last_sale_date_def total_sold_lookback_def sum_quantity_sold_def units_to_buy_calls_def
      stock_cero_section_def event_sections_def Let_def)

theorem recomendacion_compra_rule_witness:
  "total_sold_lookback three_sales (10, 1, 1) 15 = 7
   \<and> closing_available_stock (the (map_of three_sales (10, 1, 1))) = 3
   \<and> filter (\<lambda>c. call_metric c = RECOMENDACION_COMPRA)
        [alert_call (10, 1, 1) (the (map_of three_sales (10, 1, 1))) RECOMENDACION_COMPRA 4]
      = [alert_call (10, 1, 1) (the (map_of three_sales (10, 1, 1))) RECOMENDACION_COMPRA (7 - 3)]"
proof -
  have s: "total_sold_lookback three_sales (10, 1, 1) 15 = 7"
    by (simp add: three_sales_def total_sold_lookback_def sum_quantity_sold_def)
  have a: "closing_available_stock (the (map_of three_sales (10, 1, 1))) = 3"
    by (simp add: three_sales_def)
  from recomendacion_compra_rule [OF three_sales_calls, of "hardcoded_defaults RECOMENDACION_COMPRA" 15]
  show ?thesis
    by (simp add: default_configs_def s a)
qed


section \<open>Properties of the recalculation loop\<close>

lemma chained_cong:
  "m' (d, p, w) = m (d, p, w) \<Longrightarrow> m' (d - 1, p, w) = m (d - 1, p, w) \<Longrightarrow>
   chained m d p w \<Longrightarrow> chained m' d p w"
  by (simp add: chained_def split: option.splits)

lemma compute_snapshot_opening:
  "opening_physical_stock (compute_snapshot db d p w) =
     (case map_of (snapshots db) (d - 1, p, w) of None \<Rightarrow> 0 | Some s0 \<Rightarrow> closing_physical_stock s0)"
  "opening_reserved_stock (compute_snapshot db d p w) =
     (case map_of (snapshots db) (d - 1, p, w) of None \<Rightarrow> 0 | Some s0 \<Rightarrow> closing_reserved_stock s0)"
  by (simp_all add: compute_snapshot_def snapshot_data_of_def Let_def)

lemma process_pair_snapshots:
  assumes "process_pair cfg c d db (p, w) = Inr db'"
  shows "map_of (snapshots db') = (map_of (snapshots db))((d, p, w) \<mapsto> compute_snapshot db d p w)"
    and "transaction_lines db' = transaction_lines db"
    and "metric_configurations db' = metric_configurations db"
  using assms
  by (auto simp: process_pair_def Let_def AList.update_conv' split: sum.splits)

lemma process_pair_chained:
  assumes "process_pair cfg c d db (p, w) = Inr db'"
  shows "chained (map_of (snapshots db')) d p w"
    and "chained (map_of (snapshots db)) d p' w' \<Longrightarrow> chained (map_of (snapshots db')) d p' w'"
    and "fst k \<noteq> d \<Longrightarrow> map_of (snapshots db') k = map_of (snapshots db) k"
proof -
  note m = process_pair_snapshots(1) [OF assms]
  show "chained (map_of (snapshots db')) d p w"
    by (simp add: m chained_def compute_snapshot_opening)
  show "fst k \<noteq> d \<Longrightarrow> map_of (snapshots db') k = map_of (snapshots db) k"
    by (cases k) (auto simp: m)
  show "chained (map_of (snapshots db)) d p' w' \<Longrightarrow> chained (map_of (snapshots db')) d p' w'"
    by (auto simp: m chained_def compute_snapshot_opening split: option.splits)
qed

lemma for_each_pairs_chained:
  assumes "for_each (\<lambda>db pair. process_pair (cfg (snd pair)) c d db pair) db pairs = Inr db'"
  shows "(\<forall>(p, w) \<in> set pairs. chained (map_of (snapshots db')) d p w)
       \<and> (\<forall>p w. chained (map_of (snapshots db)) d p w \<longrightarrow> chained (map_of (snapshots db')) d p w)
       \<and> (\<forall>k. fst k \<noteq> d \<longrightarrow> map_of (snapshots db') k = map_of (snapshots db) k)
       \<and> metric_configurations db' = metric_configurations db"
  using assms
proof (induction pairs arbitrary: db)
  case Nil
  then show ?case by simp
next
  case (Cons pair pairs)
  obtain p w where pw: "pair = (p, w)" by (cases pair)
  from Cons.prems obtain db1 where
    s1: "process_pair (cfg w) c d db (p, w) = Inr db1" and
    s2: "for_each (\<lambda>db pair. process_pair (cfg (snd pair)) c d db pair) db1 pairs = Inr db'"
    by (auto simp: pw split: sum.splits)
  note ih = Cons.IH [OF s2]
  note pc = process_pair_chained [OF s1]
  have "chained (map_of (snapshots db')) d p w"
    using ih pc(1) by blast
  moreover have "\<forall>p w. chained (map_of (snapshots db)) d p w \<longrightarrow> chained (map_of (snapshots db')) d p w"
    using ih pc(2) by blast
  moreover have "\<forall>k. fst k \<noteq> d \<longrightarrow> map_of (snapshots db') k = map_of (snapshots db) k"
    using ih pc(3) by simp
  moreover have "metric_configurations db' = metric_configurations db"
    using ih process_pair_snapshots(3) [OF s1] by simp
  ultimately show ?case using ih by (simp add: pw)
qed

lemma for_each_append:
  "for_each f s (xs @ ys) = (case for_each f s xs of Inl e \<Rightarrow> Inl e | Inr s' \<Rightarrow> for_each f s' ys)"
  by (induction xs arbitrary: s) (auto split: sum.splits)

lemma for_each_map:
  "for_each f s (map g xs) = for_each (\<lambda>s x. f s (g x)) s xs"
  by (induction xs arbitrary: s) (auto split: sum.splits)

lemma for_each_nested:
  "for_each (\<lambda>s x. for_each (\<lambda>s y. f s (x, y)) s ys) s xs
     = for_each f s (concat (map (\<lambda>x. map (Pair x) ys) xs))"
  by (induction xs arbitrary: s) (auto simp: for_each_append for_each_map split: sum.splits)

lemma process_date_chained:
  assumes "process_date db ps ws c d = Inr db'"
  shows "(\<forall>p \<in> set ps. \<forall>w \<in> set ws. chained (map_of (snapshots db')) d p w)
       \<and> (\<forall>k. fst k \<noteq> d \<longrightarrow> map_of (snapshots db') k = map_of (snapshots db) k)"
proof -
  from assms obtain all_configs global_configs where
    "for_each
       (\<lambda>db p. for_each
          (\<lambda>db w. process_pair (case all_configs w of Some c \<Rightarrow> c | None \<Rightarrow> global_configs)
                     c d db (p, w)) db ws) db ps = Inr db'"
    by (auto simp: process_date_def split: sum.splits)
  then have "for_each
       (\<lambda>db pair. process_pair
           (case all_configs (snd pair) of Some c \<Rightarrow> c | None \<Rightarrow> global_configs) c d db pair)
       db (concat (map (\<lambda>x. map (Pair x) ws) ps)) = Inr db'"
    using for_each_nested
      [of "\<lambda>db pair. process_pair
           (case all_configs (snd pair) of Some c \<Rightarrow> c | None \<Rightarrow> global_configs) c d db pair"
          ws db ps]
    by simp
  from for_each_pairs_chained [OF this] show ?thesis by auto
qed

lemma recalculate_loop_chained:
  assumes "recalculate_loop db ps ws c today cur = Inr db'"
  shows "(\<forall>k. fst k < cur \<longrightarrow> map_of (snapshots db') k = map_of (snapshots db) k)
       \<and> (\<forall>d p w. cur \<le> d \<and> d \<le> today \<and> p \<in> set ps \<and> w \<in> set ws
             \<longrightarrow> chained (map_of (snapshots db')) d p w)"
  using assms
proof (induction db ps ws c today cur rule: recalculate_loop.induct)
  case (1 db ps ws c today cur)
  show ?case
  proof (cases "cur \<le> today")
    case False
    with "1.prems" show ?thesis by auto
  next
    case True
    with "1.prems" obtain db1 where
      s1: "process_date db ps ws c cur = Inr db1" and
      s2: "recalculate_loop db1 ps ws c today (cur + 1) = Inr db'"
      by (auto split: sum.splits)
    note ih = "1.IH" [OF True s1 s2]
    note pd = process_date_chained [OF s1]
    have later: "\<And>k. fst k < cur + 1 \<Longrightarrow> map_of (snapshots db') k = map_of (snapshots db1) k"
      using ih by blast
    have unchanged: "\<forall>k. fst k < cur \<longrightarrow> map_of (snapshots db') k = map_of (snapshots db) k"
      using later pd by (metis less_irrefl zless_add1_eq)
    have "chained (map_of (snapshots db')) d p w"
      if d: "cur \<le> d" "d \<le> today" and p: "p \<in> set ps" and w: "w \<in> set ws" for d p w
    proof (cases "d = cur")
      case True
      have "map_of (snapshots db') (cur, p, w) = map_of (snapshots db1) (cur, p, w)"
        and "map_of (snapshots db') (cur - 1, p, w) = map_of (snapshots db1) (cur - 1, p, w)"
        using later by simp_all
      moreover have "chained (map_of (snapshots db1)) cur p w" using pd p w by blast
      ultimately show ?thesis unfolding True by (rule chained_cong)
    next
      case False
      with d have "cur + 1 \<le> d" by simp
      with ih d p w show ?thesis by blast
    qed
    with unchanged show ?thesis by blast
  qed
qed

text \<open>
  C2. When the engine completes, every day \<open>d\<close> from the start date to today, for every
  product and warehouse it was given, has a snapshot whose opening physical and reserved
  stocks equal the closing physical and reserved stocks of the snapshot of day \<open>d - 1\<close> in the
  resulting table, or zero when that table has no snapshot of day \<open>d - 1\<close>.
\<close>

theorem opening_is_previous_closing:
  assumes "recalculate_stock_snapshots db product_ids warehouse_ids start_date company_id today
             = Inr db'"
    and "start_date \<le> d" and "d \<le> today"
    and "p \<in> set product_ids" and "w \<in> set warehouse_ids"
  shows "\<exists>s. map_of (snapshots db') (d, p, w) = Some s
           \<and> opening_physical_stock s =
               (case map_of (snapshots db') (d - 1, p, w) of
                  None \<Rightarrow> 0 | Some s0 \<Rightarrow> closing_physical_stock s0)
           \<and> opening_reserved_stock s =
               (case map_of (snapshots db') (d - 1, p, w) of
                  None \<Rightarrow> 0 | Some s0 \<Rightarrow> closing_reserved_stock s0)"
proof -
  from assms have "chained (map_of (snapshots db')) d p w"
    using recalculate_loop_chained [of db product_ids warehouse_ids company_id today start_date db']
    by (simp add: recalculate_stock_snapshots_def)
  then show ?thesis
    by (auto simp: chained_def split: option.splits)
qed

lemma two_day_run:
  "\<not> isl (recalculate_stock_snapshots two_day_db [1] [1] 1 5 2)
   \<and> snapshots (projr (recalculate_stock_snapshots two_day_db [1] [1] 1 5 2)) =
       [((1, 1, 1),
         \<lparr> opening_physical_stock = 0, opening_reserved_stock = 0, quantity_sold = 0,
           quantity_returned = 0, quantity_purchased = 0, quantity_adjusted = 10,
           quantity_transfer_in = 0, quantity_transfer_out = 0, quantity_newly_reserved = 0,
           quantity_released_from_reservation = 0, closing_physical_stock = 10,
           closing_reserved_stock = 0, closing_available_stock = 10 \<rparr>),
        ((2, 1, 1),
         \<lparr> opening_physical_stock = 10, opening_reserved_stock = 0, quantity_sold = 3,
           quantity_returned = 0, quantity_purchased = 0, quantity_adjusted = 0,
           quantity_transfer_in = 0, quantity_transfer_out = 0, quantity_newly_reserved = 0,
           quantity_released_from_reservation = 0, closing_physical_stock = 7,
           closing_reserved_stock = 0, closing_available_stock = 7 \<rparr>)]"
  by (simp add: recalculate_stock_snapshots_def two_day_db_def process_date_def
      all_metric_names_def get_effective_metric_config_def query_config_json_def scalar_def
      overlay_def process_pair_def compute_snapshot_def replay_day_def empty_totals_def
      ordered_daily_transactions_def snapshot_data_of_def Let_def
      evaluate_and_log_metrics_for_snapshot_def baja_rotacion_section_def
      recomendacion_compra_section_def config_int_def last_sale_date_def
      total_sold_lookback_def sum_quantity_sold_def units_to_buy_calls_def
      stock_cero_section_def event_sections_def alert_call_def
      create_or_update_metric_alert_def)

theorem opening_is_previous_closing_witness:
  "\<not> isl (recalculate_stock_snapshots two_day_db [1] [1] 1 5 2)
   \<and> (\<exists>s. map_of (snapshots (projr (recalculate_stock_snapshots two_day_db [1] [1] 1 5 2)))
              (2, 1, 1) = Some s
          \<and> opening_physical_stock s = 10 \<and> opening_reserved_stock s = 0
          \<and> closing_physical_stock s = 7)
   \<and> (\<exists>s0. map_of (snapshots (projr (recalculate_stock_snapshots two_day_db [1] [1] 1 5 2)))
              (1, 1, 1) = Some s0
          \<and> closing_physical_stock s0 = 10 \<and> closing_reserved_stock s0 = 0)"
proof -
  let ?R = "recalculate_stock_snapshots two_day_db [1] [1] 1 5 2"
  have r: "?R = Inr (projr ?R)"
    using two_day_run by (cases ?R) simp_all
  have "\<exists>s. map_of (snapshots (projr ?R)) (2, 1, 1) = Some s
           \<and> opening_physical_stock s =
               (case map_of (snapshots (projr ?R)) (2 - 1, 1, 1) of
                  None \<Rightarrow> 0 | Some s0 \<Rightarrow> closing_physical_stock s0)
           \<and> opening_reserved_stock s =
               (case map_of (snapshots (projr ?R)) (2 - 1, 1, 1) of
                  None \<Rightarrow> 0 | Some s0 \<Rightarrow> closing_reserved_stock s0)"
    by (rule opening_is_previous_closing [OF r]) simp_all
  then show ?thesis
    using two_day_run by simp
qed


section \<open>Properties of the bulk ingestion\<close>

lemma lower_examples:
  "lower ''CENTRO'' = ''centro''" "lower ''Centro'' = ''centro''"
  "lower ''centro'' = ''centro''" "lower ''Norte'' = ''norte''"
  by (simp_all add: lower_def lower_char_def)

text \<open>
  C10 (the code departs from the claim). A payload item with an unknown SKU, a positive
  quantity and no \<^verbatim>\<open>costo\<close>, which the schema allows, makes the task raise \<^verbatim>\<open>TypeError\<close>
  while it creates the product: the whole payload is rolled back and no product, transaction
  or detail is stored. The same item is ingested when its SKU is known. Where the claim
  holds: an item with a cost at an unknown warehouse and SKU creates both rows and attaches
  the detail to them, and an item of a transaction already stored for its warehouse changes
  nothing.
\<close>

theorem bulk_unknown_product_without_cost_raises:
  "process_bulk_transactions_task shop_db [item_without_cost ''SKU-2'']
     = Inl (TypeError ''conversion from NoneType to Decimal is not supported'')
   \<and> process_bulk_transactions_task shop_db [item_without_cost ''SKU-1'']
     = Inr (shop_db\<lparr> transactions := transactions shop_db @
                      [\<lparr> transaction_id = 2, reference_code = ''B-101'', tx_date = 4,
                         tx_warehouse_id = 1 \<rparr>],
                    transaction_details := transaction_details shop_db @
                      [\<lparr> detail_transaction_id = 2, detail_product_id = 1,
                         quantity_moved = 5, unit_cost = Some 5,
                         detail_movement_type = VENTA \<rparr>] \<rparr>)
   \<and> process_bulk_transactions_task shop_db [item_with_cost]
     = Inr \<lparr> warehouses = warehouses shop_db @
                 [\<lparr> warehouse_id = 2, warehouse_name = ''Norte'' \<rparr>],
             products = products shop_db @
                 [\<lparr> product_id = 2, product_name = ''Plato'', code = Some ''SKU-2'',
                    category = Some ''Loza'', cost = Some 2 \<rparr>],
             transactions = transactions shop_db @
                 [\<lparr> transaction_id = 2, reference_code = ''R-7'', tx_date = 4,
                    tx_warehouse_id = 2 \<rparr>],
             transaction_details = transaction_details shop_db @
                 [\<lparr> detail_transaction_id = 2, detail_product_id = 2, quantity_moved = 5,
                    unit_cost = Some 2, detail_movement_type = RECEPCION \<rparr>] \<rparr>
   \<and> process_bulk_transactions_task shop_db [item_of_stored_transaction] = Inr shop_db"
  by (simp add: process_bulk_transactions_task_def shop_db_def item_without_cost_def
      item_with_cost_def item_of_stored_transaction_def
      grouped_transactions_def lower_examples process_group_def get_or_create_warehouse_def
      add_detail_def get_or_create_product_def new_id_def Let_def)

end
